theory Spec2Isabelle
  imports Complex_Main "HOL-Library.Option_ord"
begin

section \<open>Skillora quiz engine: data model\<close>

text \<open>
  The embedding follows \<^verbatim>\<open>backend/quizzes/models.py\<close>, \<^verbatim>\<open>serializers.py\<close> and
  \<^verbatim>\<open>views.py\<close>. Modelling decisions:
  \<^item> a UUID primary key is a natural number; \<^verbatim>\<open>str(uuid)\<close> and \<^verbatim>\<open>uuid.UUID(text)\<close> belong to
    the Python library and are parameters \<open>uuid_str\<close> and \<open>uuid_parse\<close> (\<open>None\<close> is the
    \<^verbatim>\<open>ValueError\<close> of a malformed text);
  \<^item> a timestamp is an integer number of microseconds, the resolution of \<^verbatim>\<open>datetime\<close>;
    a handler reads the clock once (\<open>now\<close>);
  \<^item> a timestamp lies between \<^verbatim>\<open>datetime.min\<close> and \<^verbatim>\<open>datetime.max\<close> (\<open>valid_datetime\<close>), and
    arithmetic that leaves this range raises \<^verbatim>\<open>OverflowError\<close>;
  \<^item> \<^verbatim>\<open>PositiveIntegerField\<close> is \<open>nat\<close>, except \<open>time_spent_seconds\<close> of an attempt, an \<open>int\<close>:
    \<^verbatim>\<open>complete_attempt\<close> computes a negative value when the clock reads less than
    \<open>started_at\<close>. \<^verbatim>\<open>save()\<close> of an attempt fails as the database (SQLite, 64-bit integers, a
    \<^verbatim>\<open>CHECK (col >= 0)\<close> on each positive column) makes it fail: \<open>column_error\<close>;
  \<^item> a Python \<^verbatim>\<open>float\<close> is the rational number that the IEEE 754 double stands for; true
    division and multiplication round the exact result to the nearest double, ties to the
    even significand (\<open>round_double\<close>). The \<^verbatim>\<open>FloatField\<close> \<open>score_percentage\<close> holds such a
    value, and Python compares a float with an integer exactly;
  \<^item> a \<^verbatim>\<open>JSONField\<close> is a value of the datatype \<open>json\<close> (numbers are integers), except
    \<open>quiz_settings\<close>, which the code only ever fills with flags and which is an association
    list from key to flag;
  \<^item> a raised exception is \<open>Inl\<close> of an \<open>error\<close>.
\<close>

type_synonym uuid = nat
type_synonym datetime = int

datatype error =
    ValueError string
  | TypeError
  | AttributeError
  | ZeroDivisionError
  | IntegrityError
  | OverflowError
  | DoesNotExist

text \<open>What a request handler answers: the status code with the body, or the code with the
  reason of a refusal. \<open>Http404\<close> is what \<^verbatim>\<open>get_object_or_404\<close> raises; \<open>Http500\<close> is an
  exception that no handler catches.\<close>

datatype bad_request =
    QuizNotAvailable
  | MaxAttemptsReached nat
  | AttemptExpired
  | PointsOutOfRange nat

datatype 'a http =
    Http200 'a
  | Http201 'a
  | Http204
  | Http400 bad_request
  | Http404
  | Http500 error

datatype json =
    JNull
  | JBool bool
  | JNum int
  | JStr string
  | JArr "json list"
  | JObj "(string \<times> json) list"

datatype question_type =
    MultipleChoice
  | TrueFalse
  | ShortAnswer
  | Essay
  | FillBlank
  | Matching
  | Ordering

datatype status =
    NotStarted
  | InProgress
  | Completed
  | Abandoned
  | TimeExpired

record quiz =
  quiz_id :: uuid
  course :: uuid
  time_limit_minutes :: "nat option"
  max_attempts :: nat
  passing_score :: nat
  total_points :: nat
  available_from :: "datetime option"
  available_until :: "datetime option"
  is_active :: bool
  shuffle_questions :: bool
  shuffle_answers :: bool
  show_correct_answers :: bool
  show_score_immediately :: bool
  allow_review :: bool
  require_completion :: bool

record answer =
  answer_id :: uuid
  answer_text :: string
  ans_is_correct :: bool
  match_order :: "nat option"
  ans_order :: nat

text \<open>\<open>answers\<close> is \<^verbatim>\<open>question.answers.all()\<close>, in the order of \<^verbatim>\<open>Answer.Meta.ordering\<close>.\<close>

record question =
  question_id :: uuid
  q_quiz :: uuid
  qtype :: question_type
  points :: nat
  q_order :: nat
  answers :: "answer list"

text \<open>\<open>selected_answers\<close> is the many-to-many queryset, in the order the ORM returns it.\<close>

record response =
  response_id :: uuid
  r_attempt :: uuid
  r_question :: uuid
  selected_answers :: "answer list"
  text_response :: string
  response_data :: json
  is_correct :: bool
  points_earned :: nat
  r_time_spent_seconds :: nat

record attempt =
  attempt_id :: uuid
  a_quiz :: uuid
  student :: uuid
  enrollment :: "uuid option"
  attempt_number :: nat
  status :: status
  score_points :: nat
  score_percentage :: rat
  passed :: bool
  a_time_limit_minutes :: "nat option"
  time_spent_seconds :: int
  started_at :: "datetime option"
  completed_at :: "datetime option"
  expires_at :: "datetime option"
  quiz_settings :: "(string \<times> bool) list"
  created_at :: datetime
  updated_at :: datetime

section \<open>Python and ORM helpers\<close>

text \<open>\<^verbatim>\<open>QuerySet.first()\<close>: the first row, or \<^verbatim>\<open>None\<close>.\<close>

fun queryset_first :: "'a list \<Rightarrow> 'a option" where
  "queryset_first [] = None"
| "queryset_first (x # xs) = Some x"

text \<open>Truth value of a JSON value, as \<^verbatim>\<open>x or {}\<close> and \<^verbatim>\<open>not x\<close> test it.\<close>

fun py_truthy :: "json \<Rightarrow> bool" where
  "py_truthy JNull = False"
| "py_truthy (JBool b) = b"
| "py_truthy (JNum n) = (n \<noteq> 0)"
| "py_truthy (JStr s) = (s \<noteq> [])"
| "py_truthy (JArr xs) = (xs \<noteq> [])"
| "py_truthy (JObj kvs) = (kvs \<noteq> [])"

definition or_empty_dict :: "json \<Rightarrow> json" where
  "or_empty_dict j = (if py_truthy j then j else JObj [])"

text \<open>\<^verbatim>\<open>str.lower\<close> and \<^verbatim>\<open>str.strip\<close> on ASCII text.\<close>

definition py_lower_char :: "char \<Rightarrow> char" where
  "py_lower_char c =
     (let n = (of_char c :: nat) in if 65 \<le> n \<and> n \<le> 90 then char_of (n + 32) else c)"

definition py_lower :: "string \<Rightarrow> string" where
  "py_lower s = map py_lower_char s"

definition py_isspace :: "char \<Rightarrow> bool" where
  "py_isspace c = (let n = (of_char c :: nat) in (9 \<le> n \<and> n \<le> 13) \<or> (28 \<le> n \<and> n \<le> 32))"

definition py_strip :: "string \<Rightarrow> string" where
  "py_strip s = rev (dropWhile py_isspace (rev (dropWhile py_isspace s)))"

text \<open>A dictionary built key by key, or parsed from JSON text: a later entry of the same
  key replaces an earlier one.\<close>

definition dict_get :: "(string \<times> 'v) list \<Rightarrow> string \<Rightarrow> 'v option" where
  "dict_get kvs k = map_of (rev kvs) k"

text \<open>Python \<^verbatim>\<open>==\<close> between a JSON value and a \<open>match_order\<close> (an integer or \<^verbatim>\<open>None\<close>);
  \<^verbatim>\<open>True == 1\<close> and \<^verbatim>\<open>False == 0\<close> hold in Python.\<close>

fun json_eq_match_order :: "json \<Rightarrow> nat option \<Rightarrow> bool" where
  "json_eq_match_order JNull None = True"
| "json_eq_match_order (JNum n) (Some m) = (n = int m)"
| "json_eq_match_order (JBool b) (Some m) = ((if b then 1 else 0) = m)"
| "json_eq_match_order _ _ = False"

text \<open>\<^verbatim>\<open>response_data == correct_matches\<close>: equal key sets and equal values.\<close>

definition dict_eq_matches :: "json \<Rightarrow> (string \<times> nat option) list \<Rightarrow> bool" where
  "dict_eq_matches j correct_matches =
     (case j of
        JObj kvs \<Rightarrow>
          set (map fst kvs) = set (map fst correct_matches) \<and>
          list_all
            (\<lambda>k. case (dict_get kvs k, dict_get correct_matches k) of
                    (Some v, Some m) \<Rightarrow> json_eq_match_order v m
                  | _ \<Rightarrow> False)
            (map fst correct_matches)
      | _ \<Rightarrow> False)"

text \<open>\<^verbatim>\<open>response_data.get('order', [])\<close>: only a dictionary has \<^verbatim>\<open>get\<close>.\<close>

definition get_order :: "json \<Rightarrow> error + json" where
  "get_order j =
     (case j of
        JObj kvs \<Rightarrow> (case dict_get kvs ''order'' of None \<Rightarrow> Inr (JArr []) | Some v \<Rightarrow> Inr v)
      | _ \<Rightarrow> Inl AttributeError)"

text \<open>\<^verbatim>\<open>uuid.UUID(id_str)\<close> on one element of the iteration.\<close>

fun parse_uuid_item :: "(string \<Rightarrow> uuid option) \<Rightarrow> json \<Rightarrow> error + uuid" where
  "parse_uuid_item uuid_parse (JStr s) =
     (case uuid_parse s of None \<Rightarrow> Inl (ValueError ''badly formed hexadecimal UUID string'')
                         | Some u \<Rightarrow> Inr u)"
| "parse_uuid_item uuid_parse JNull = Inl TypeError"
| "parse_uuid_item uuid_parse _ = Inl AttributeError"

fun parse_uuid_items :: "(string \<Rightarrow> uuid option) \<Rightarrow> json list \<Rightarrow> error + uuid list" where
  "parse_uuid_items uuid_parse [] = Inr []"
| "parse_uuid_items uuid_parse (x # xs) =
     (case parse_uuid_item uuid_parse x of
        Inl e \<Rightarrow> Inl e
      | Inr u \<Rightarrow> (case parse_uuid_items uuid_parse xs of Inl e \<Rightarrow> Inl e | Inr us \<Rightarrow> Inr (u # us)))"

text \<open>The list comprehension over the value of \<^verbatim>\<open>'order'\<close>: a list yields its elements, a
  string its characters, a dictionary its keys; nothing else can be iterated.\<close>

definition user_order :: "(string \<Rightarrow> uuid option) \<Rightarrow> json \<Rightarrow> error + uuid list" where
  "user_order uuid_parse v =
     (case v of
        JArr xs \<Rightarrow> parse_uuid_items uuid_parse xs
      | JStr s \<Rightarrow> parse_uuid_items uuid_parse (map (\<lambda>c. JStr [c]) s)
      | JObj kvs \<Rightarrow> parse_uuid_items uuid_parse (map JStr (remdups (map fst kvs)))
      | _ \<Rightarrow> Inl TypeError)"

text \<open>Rounding to the nearest integer, a tie to the even one.\<close>

definition round_half_even :: "rat \<Rightarrow> int" where
  "round_half_even x =
     (let f = \<lfloor>x\<rfloor>; r = x - of_int f
      in if r < 1 / 2 then f else if 1 / 2 < r then f + 1 else if even f then f else f + 1)"

text \<open>A double has a significand of 53 bits and a unit in the last place of at least
  \<open>2 ^ -1074\<close>; the largest finite double is below \<open>2 ^ 1024\<close>. \<open>halvings\<close> counts how often a
  number of at least \<open>2 ^ 53\<close> is halved until it is below \<open>2 ^ 53\<close>, \<open>doublings\<close> how often a
  number below \<open>2 ^ 52\<close> is doubled until it is not; the first argument is the most that the
  exponent range allows.\<close>

fun halvings :: "nat \<Rightarrow> rat \<Rightarrow> nat" where
  "halvings n x = (if n = 0 \<or> x < 2 ^ 53 then 0 else Suc (halvings (n - 1) (x / 2)))"

fun doublings :: "nat \<Rightarrow> rat \<Rightarrow> nat" where
  "doublings n x = (if n = 0 \<or> 2 ^ 52 \<le> x then 0 else Suc (doublings (n - 1) (x * 2)))"

declare halvings.simps [simp del]

declare doublings.simps [simp del]

text \<open>The double nearest to a non-negative rational: the significand is the rational scaled
  into 53 bits and rounded. A result of \<open>2 ^ 1024\<close> or more stands for an overflow.\<close>

definition round_double_pos :: "rat \<Rightarrow> rat" where
  "round_double_pos x =
     (if x = 0 then 0
      else
        let j = halvings 971 x in
        if 0 < j then of_int (round_half_even (x / 2 ^ j)) * 2 ^ j
        else
          let k = doublings 1074 x in
          of_int (round_half_even (x * 2 ^ k)) / 2 ^ k)"

definition round_double :: "rat \<Rightarrow> rat" where
  "round_double x = (if x < 0 then - round_double_pos (- x) else round_double_pos x)"

text \<open>True division of two non-negative Python integers: the correctly rounded quotient;
  \<^verbatim>\<open>OverflowError\<close> when it is too large for a float.\<close>

definition py_truediv :: "nat \<Rightarrow> nat \<Rightarrow> error + rat" where
  "py_truediv a b =
     (if b = 0 then Inl ZeroDivisionError
      else
        let q = round_double (of_nat a / of_nat b) in
        if 2 ^ 1024 \<le> q then Inl OverflowError else Inr q)"

text \<open>\<^verbatim>\<open>int(timedelta.total_seconds())\<close>: the microseconds divided by \<open>10 ^ 6\<close> as a float,
  truncated towards zero.\<close>

definition int_total_seconds :: "int \<Rightarrow> int" where
  "int_total_seconds d =
     (let r = round_double (of_int d / 1000000)
      in if 0 \<le> r then \<lfloor>r\<rfloor> else - \<lfloor>- r\<rfloor>)"

text \<open>\<^verbatim>\<open>datetime.min\<close> and \<^verbatim>\<open>datetime.max\<close> in microseconds since 1970-01-01.\<close>

definition datetime_min :: datetime where
  "datetime_min = - 62135596800000000"

definition datetime_max :: datetime where
  "datetime_max = 253402300799999999"

definition valid_datetime :: "datetime \<Rightarrow> bool" where
  "valid_datetime t = (datetime_min \<le> t \<and> t \<le> datetime_max)"

text \<open>The largest integer that an SQLite column stores.\<close>

definition sqlite_max :: int where
  "sqlite_max = 9223372036854775807"

section \<open>QuestionResponse.evaluate\_response\<close>

definition text_matches :: "answer list \<Rightarrow> string \<Rightarrow> bool" where
  "text_matches correct_answers text =
     (let user_answer = py_lower (py_strip text)
      in list_ex (\<lambda>a. py_lower (py_strip (answer_text a)) = user_answer) correct_answers)"

definition evaluate_is_correct ::
  "(uuid \<Rightarrow> string) \<Rightarrow> (string \<Rightarrow> uuid option) \<Rightarrow> question \<Rightarrow> response \<Rightarrow> error + bool" where
  "evaluate_is_correct uuid_str uuid_parse question self =
     (case qtype question of
        MultipleChoice \<Rightarrow>
          Inr (set (map answer_id (filter ans_is_correct (answers question)))
                 = set (map answer_id (selected_answers self)))
      | TrueFalse \<Rightarrow>
          (let correct_answer = queryset_first (filter ans_is_correct (answers question));
               selected_answer = queryset_first (selected_answers self)
           in Inr (map_option answer_id correct_answer = map_option answer_id selected_answer))
      | ShortAnswer \<Rightarrow>
          Inr (text_matches (filter ans_is_correct (answers question)) (text_response self))
      | FillBlank \<Rightarrow>
          Inr (text_matches (filter ans_is_correct (answers question)) (text_response self))
      | Essay \<Rightarrow> Inr False
      | Matching \<Rightarrow>
          Inr (dict_eq_matches (or_empty_dict (response_data self))
                 (map (\<lambda>a. (uuid_str (answer_id a), match_order a)) (answers question)))
      | Ordering \<Rightarrow>
          (case get_order (or_empty_dict (response_data self)) of
             Inl e \<Rightarrow> Inl e
           | Inr v \<Rightarrow>
               (case user_order uuid_parse v of
                  Inl e \<Rightarrow> Inl e
                | Inr uo \<Rightarrow>
                    Inr (map answer_id (sort_key match_order (answers question)) = uo))))"

text \<open>The method: the branch on the question type, then the points, then \<^verbatim>\<open>save()\<close>
  (the returned record is the row that is written).\<close>

definition evaluate_response ::
  "(uuid \<Rightarrow> string) \<Rightarrow> (string \<Rightarrow> uuid option) \<Rightarrow> question \<Rightarrow> response \<Rightarrow> error + response" where
  "evaluate_response uuid_str uuid_parse question self =
     (case evaluate_is_correct uuid_str uuid_parse question self of
        Inl e \<Rightarrow> Inl e
      | Inr c \<Rightarrow> Inr (self\<lparr>is_correct := c, points_earned := (if c then points question else 0)\<rparr>))"

section \<open>QuizAttempt.calculate\_score\<close>

text \<open>The loop over \<^verbatim>\<open>self.responses.all()\<close>; each response comes with its
  \<^verbatim>\<open>response.question\<close>. The quotient is at most 1, so its product with 100 is finite.\<close>

fun sum_responses :: "(response \<times> question) list \<Rightarrow> nat \<Rightarrow> nat \<Rightarrow> nat \<times> nat" where
  "sum_responses [] total_pts earned_pts = (total_pts, earned_pts)"
| "sum_responses ((r, q) # rest) total_pts earned_pts =
     sum_responses rest (total_pts + points q)
       (if is_correct r then earned_pts + points q else earned_pts)"

definition calculate_score :: "quiz \<Rightarrow> (response \<times> question) list \<Rightarrow> attempt \<Rightarrow> error + attempt" where
  "calculate_score qz responses self =
     (case sum_responses responses 0 0 of
        (total_pts, earned_pts) \<Rightarrow>
          (case (if total_pts > 0
                 then (case py_truediv earned_pts total_pts of
                         Inl e \<Rightarrow> Inl e
                       | Inr d \<Rightarrow> Inr (round_double (d * 100)))
                 else Inr 0) of
             Inl e \<Rightarrow> Inl e
           | Inr pct \<Rightarrow>
               Inr (self\<lparr>score_points := earned_pts,
                         score_percentage := pct,
                         passed := (pct \<ge> of_nat (passing_score qz))\<rparr>)))"


section \<open>QuizAttempt: properties and lifecycle methods\<close>

text \<open>\<^verbatim>\<open>save()\<close> of a model with an \<^verbatim>\<open>auto_now\<close> column stamps it; the methods below return
  the record that \<^verbatim>\<open>self.save()\<close> writes, and the handlers put it into the table.\<close>

definition auto_now :: "datetime \<Rightarrow> attempt \<Rightarrow> attempt" where
  "auto_now now self = self\<lparr>updated_at := now\<rparr>"

text \<open>What the database raises when a row of \<^verbatim>\<open>quiz_attempts\<close> is written: an integer beyond
  64 bits cannot be bound to the statement (\<^verbatim>\<open>OverflowError\<close>), and a negative value in a
  \<^verbatim>\<open>PositiveIntegerField\<close> violates the \<^verbatim>\<open>CHECK\<close> of the column (\<^verbatim>\<open>IntegrityError\<close>).\<close>

definition column_error :: "attempt \<Rightarrow> error option" where
  "column_error self =
     (if sqlite_max < int (attempt_number self) \<or> sqlite_max < int (score_points self) \<or>
         sqlite_max < time_spent_seconds self \<or> time_spent_seconds self < - sqlite_max - 1 \<or>
         (case a_time_limit_minutes self of None \<Rightarrow> False | Some m \<Rightarrow> sqlite_max < int m)
      then Some OverflowError
      else if time_spent_seconds self < 0 then Some IntegrityError
      else None)"

text \<open>\<^verbatim>\<open>self.save()\<close> of an attempt.\<close>

definition save_row :: "datetime \<Rightarrow> attempt \<Rightarrow> error + attempt" where
  "save_row now self =
     (case column_error (auto_now now self) of
        Some e \<Rightarrow> Inl e
      | None \<Rightarrow> Inr (auto_now now self))"

definition is_available :: "datetime \<Rightarrow> quiz \<Rightarrow> bool" where
  "is_available now self =
     (if (case available_from self of None \<Rightarrow> False | Some t \<Rightarrow> now < t) then False
      else if (case available_until self of None \<Rightarrow> False | Some t \<Rightarrow> now > t) then False
      else is_active self)"

definition is_expired :: "datetime \<Rightarrow> attempt \<Rightarrow> bool" where
  "is_expired now self = (case expires_at self of None \<Rightarrow> False | Some t \<Rightarrow> now > t)"

text \<open>\<^verbatim>\<open>timezone.timedelta(minutes=m)\<close> in microseconds.\<close>

definition minutes :: "nat \<Rightarrow> int" where
  "minutes m = int m * 60000000"

text \<open>\<^verbatim>\<open>if self.quiz.time_limit_minutes:\<close> is false for \<^verbatim>\<open>None\<close> and for \<open>0\<close>. The sum
  \<^verbatim>\<open>self.started_at + timezone.timedelta(minutes=...)\<close> raises \<^verbatim>\<open>OverflowError\<close> when it passes
  \<^verbatim>\<open>datetime.max\<close>.\<close>

definition start_attempt :: "datetime \<Rightarrow> quiz \<Rightarrow> attempt \<Rightarrow> error + attempt" where
  "start_attempt now qz self =
     (if status self \<noteq> NotStarted then Inl (ValueError ''Attempt already started'')
      else
        let s1 = self\<lparr>status := InProgress, started_at := Some now\<rparr> in
        (case (case time_limit_minutes qz of
                 None \<Rightarrow> Inr s1
               | Some m \<Rightarrow>
                   if m \<noteq> 0
                   then (if datetime_max < now + minutes m then Inl OverflowError
                         else Inr (s1\<lparr>a_time_limit_minutes := Some m,
                                       expires_at := Some (now + minutes m)\<rparr>))
                   else Inr s1) of
           Inl e \<Rightarrow> Inl e
         | Inr s2 \<Rightarrow>
             save_row now
               (s2\<lparr>quiz_settings :=
                      [(''shuffle_questions'', shuffle_questions qz),
                       (''shuffle_answers'', shuffle_answers qz),
                       (''show_correct_answers'', show_correct_answers qz),
                       (''show_score_immediately'', show_score_immediately qz),
                       (''allow_review'', allow_review qz)]\<rparr>)))"

definition complete_attempt ::
  "datetime \<Rightarrow> quiz \<Rightarrow> (response \<times> question) list \<Rightarrow> attempt \<Rightarrow> error + attempt" where
  "complete_attempt now qz responses self =
     (if status self \<noteq> InProgress \<and> status self \<noteq> TimeExpired
      then Inl (ValueError ''Cannot complete attempt in current status'')
      else
        let s1 = self\<lparr>status := Completed, completed_at := Some now\<rparr>;
            s2 = (case started_at s1 of
                    None \<Rightarrow> s1
                  | Some t \<Rightarrow> s1\<lparr>time_spent_seconds := int_total_seconds (now - t)\<rparr>)
        in (case calculate_score qz responses s2 of
              Inl e \<Rightarrow> Inl e
            | Inr s3 \<Rightarrow> save_row now s3))"

section \<open>The tables\<close>

text \<open>
  A table is the list of its rows in the order of insertion. \<^verbatim>\<open>get_object_or_404\<close> and
  \<^verbatim>\<open>QuerySet.get\<close> are \<open>find\<close>. A foreign key is resolved by \<open>find\<close> on the table it points
  into; the database never holds a dangling key, and the model answers \<open>DoesNotExist\<close> for
  one. The permission classes of the handlers (an authenticated learner, an authenticated
  teacher) are taken to hold of \<open>user\<close>.
\<close>

datatype enrollment_status =
    EnrActive
  | EnrCompleted
  | EnrDropped
  | EnrSuspended

record enrollment_row =
  enrollment_id :: uuid
  e_student :: uuid
  e_course :: uuid
  e_status :: enrollment_status

record course_row =
  course_id :: uuid
  instructor :: uuid

record db =
  courses :: "course_row list"
  enrollments :: "enrollment_row list"
  quizzes :: "quiz list"
  questions :: "question list"
  attempts :: "attempt list"
  responses :: "response list"

text \<open>The write of \<^verbatim>\<open>save()\<close> on a loaded row: \<^verbatim>\<open>UPDATE ... WHERE id = self.id\<close>.\<close>

definition save_attempt :: "attempt \<Rightarrow> db \<Rightarrow> db" where
  "save_attempt a d =
     d\<lparr>attempts := map (\<lambda>x. if attempt_id x = attempt_id a then a else x) (attempts d)\<rparr>"

definition save_response :: "response \<Rightarrow> db \<Rightarrow> db" where
  "save_response r d =
     d\<lparr>responses := map (\<lambda>x. if response_id x = response_id r then r else x) (responses d)\<rparr>"

text \<open>\<^verbatim>\<open>QuizAttempt.objects.filter(quiz=quiz, student=user)\<close>, newest first as
  \<^verbatim>\<open>Meta.ordering = ['-created_at']\<close> says.\<close>

definition attempts_of :: "uuid \<Rightarrow> uuid \<Rightarrow> db \<Rightarrow> attempt list" where
  "attempts_of qid user d = rev (filter (\<lambda>a. a_quiz a = qid \<and> student a = user) (attempts d))"

text \<open>\<^verbatim>\<open>attempt.responses.all()\<close>, each row joined with its question.\<close>

definition attempt_responses :: "uuid \<Rightarrow> db \<Rightarrow> (response \<times> question) list" where
  "attempt_responses aid d =
     [(r, q). r \<leftarrow> responses d, r_attempt r = aid,
              q \<leftarrow> questions d, question_id q = r_question r]"

section \<open>views.start\_quiz\_attempt\<close>

text \<open>\<^verbatim>\<open>QuizAttempt.objects.create(...)\<close> with the defaults of the model. The primary key and
  \<^verbatim>\<open>unique_together = ['quiz', 'student', 'attempt_number']\<close> are enforced by the database.\<close>

definition create_attempt ::
  "datetime \<Rightarrow> uuid \<Rightarrow> quiz \<Rightarrow> uuid \<Rightarrow> enrollment_row \<Rightarrow> nat \<Rightarrow> db \<Rightarrow> error + attempt \<times> db" where
  "create_attempt now new_id qz user enr n d =
     (let a = \<lparr>attempt_id = new_id, a_quiz = quiz_id qz, student = user,
                enrollment = Some (enrollment_id enr), attempt_number = n,
                status = NotStarted, score_points = 0, score_percentage = 0, passed = False,
                a_time_limit_minutes = None, time_spent_seconds = 0, started_at = None,
                completed_at = None, expires_at = None, quiz_settings = [],
                created_at = now, updated_at = now\<rparr>
      in (case column_error a of
            Some e \<Rightarrow> Inl e
          | None \<Rightarrow>
              if list_ex (\<lambda>x. attempt_id x = new_id \<or>
                            (a_quiz x = quiz_id qz \<and> student x = user \<and> attempt_number x = n))
                   (attempts d)
              then Inl IntegrityError
              else Inr (a, d\<lparr>attempts := attempts d @ [a]\<rparr>)))"

text \<open>The \<^verbatim>\<open>transaction.atomic()\<close> block: the row is created and started, or nothing is
  written.\<close>

definition create_and_start ::
  "datetime \<Rightarrow> uuid \<Rightarrow> quiz \<Rightarrow> uuid \<Rightarrow> enrollment_row \<Rightarrow> nat \<Rightarrow> db \<Rightarrow> attempt http \<times> db" where
  "create_and_start now new_id qz user enr existing_attempts d =
     (case create_attempt now new_id qz user enr (existing_attempts + 1) d of
        Inl e \<Rightarrow> (Http500 e, d)
      | Inr (a, d1) \<Rightarrow>
          (case start_attempt now qz a of
             Inl e \<Rightarrow> (Http500 e, d)
           | Inr a' \<Rightarrow> (Http201 a', save_attempt a' d1)))"

definition start_quiz_attempt ::
  "datetime \<Rightarrow> uuid \<Rightarrow> uuid \<Rightarrow> uuid \<Rightarrow> db \<Rightarrow> attempt http \<times> db" where
  "start_quiz_attempt now new_id user qid d =
     (case find (\<lambda>z. quiz_id z = qid) (quizzes d) of
        None \<Rightarrow> (Http404, d)
      | Some qz \<Rightarrow>
          (case find (\<lambda>e. e_student e = user \<and> e_course e = course qz \<and> e_status e = EnrActive)
                  (enrollments d) of
             None \<Rightarrow> (Http404, d)
           | Some enr \<Rightarrow>
               if \<not> is_available now qz then (Http400 QuizNotAvailable, d)
               else
                 let existing_attempts = length (attempts_of (quiz_id qz) user d) in
                 if existing_attempts \<ge> max_attempts qz
                 then (Http400 (MaxAttemptsReached (max_attempts qz)), d)
                 else
                   (case queryset_first
                           (filter (\<lambda>a. status a = InProgress) (attempts_of (quiz_id qz) user d)) of
                      None \<Rightarrow> create_and_start now new_id qz user enr existing_attempts d
                    | Some in_progress_attempt \<Rightarrow>
                        if is_expired now in_progress_attempt
                        then (case save_row now (in_progress_attempt\<lparr>status := TimeExpired\<rparr>) of
                                Inl e \<Rightarrow> (Http500 e, d)
                              | Inr expired \<Rightarrow>
                                  create_and_start now new_id qz user enr existing_attempts
                                    (save_attempt expired d))
                        else (Http200 in_progress_attempt, d))))"

section \<open>views.submit\_question\_response\<close>

text \<open>The request body: the writable fields of \<^verbatim>\<open>QuestionResponseSerializer\<close> that the quiz
  player sends, each present or absent.\<close>

record payload =
  p_selected_answer_ids :: "uuid list option"
  p_text_response :: "string option"
  p_response_data :: "json option"
  p_time_spent_seconds :: "nat option"

text \<open>\<^verbatim>\<open>Answer.objects.filter(id__in=ids)\<close> over the answers of every question.\<close>

definition answers_in :: "uuid list \<Rightarrow> db \<Rightarrow> answer list" where
  "answers_in ids d = filter (\<lambda>a. answer_id a \<in> set ids) (concat (map answers (questions d)))"

text \<open>\<^verbatim>\<open>get_or_create(..., defaults=request.data)\<close> when no row exists: the body becomes the
  keyword arguments of the model, which has no field \<^verbatim>\<open>selected_answer_ids\<close>; the new row is
  not evaluated.\<close>

definition create_response :: "uuid \<Rightarrow> uuid \<Rightarrow> uuid \<Rightarrow> payload \<Rightarrow> db \<Rightarrow> response http \<times> db" where
  "create_response new_id aid qid data d =
     (if p_selected_answer_ids data \<noteq> None then (Http500 TypeError, d)
      else if list_ex (\<lambda>x. response_id x = new_id) (responses d) then (Http500 IntegrityError, d)
      else
        let r = \<lparr>response_id = new_id, r_attempt = aid, r_question = qid,
                  selected_answers = [],
                  text_response = (case p_text_response data of None \<Rightarrow> [] | Some t \<Rightarrow> t),
                  response_data = (case p_response_data data of None \<Rightarrow> JObj [] | Some j \<Rightarrow> j),
                  is_correct = False, points_earned = 0,
                  r_time_spent_seconds =
                    (case p_time_spent_seconds data of None \<Rightarrow> 0 | Some n \<Rightarrow> n)\<rparr>
        in (Http200 r, d\<lparr>responses := responses d @ [r]\<rparr>))"

text \<open>\<^verbatim>\<open>QuestionResponseSerializer.update\<close>: the fields, \<^verbatim>\<open>save()\<close>, the selected answers,
  then \<^verbatim>\<open>evaluate_response()\<close>. No transaction spans the three writes.\<close>

definition update_response ::
  "(uuid \<Rightarrow> string) \<Rightarrow> (string \<Rightarrow> uuid option) \<Rightarrow> question \<Rightarrow> response \<Rightarrow> payload \<Rightarrow> db
     \<Rightarrow> response http \<times> db" where
  "update_response uuid_str uuid_parse question instance data d =
     (let r1 = instance\<lparr>
                 text_response :=
                   (case p_text_response data of None \<Rightarrow> text_response instance | Some t \<Rightarrow> t),
                 response_data :=
                   (case p_response_data data of None \<Rightarrow> response_data instance | Some j \<Rightarrow> j),
                 r_time_spent_seconds :=
                   (case p_time_spent_seconds data of
                      None \<Rightarrow> r_time_spent_seconds instance | Some n \<Rightarrow> n)\<rparr>;
          r2 = (case p_selected_answer_ids data of
                  None \<Rightarrow> r1
                | Some ids \<Rightarrow> r1\<lparr>selected_answers := answers_in ids d\<rparr>);
          d2 = save_response r2 d
      in (case evaluate_response uuid_str uuid_parse question r2 of
            Inl e \<Rightarrow> (Http500 e, d2)
          | Inr r3 \<Rightarrow> (Http200 r3, save_response r3 d2)))"

definition submit_question_response ::
  "datetime \<Rightarrow> (uuid \<Rightarrow> string) \<Rightarrow> (string \<Rightarrow> uuid option) \<Rightarrow> uuid \<Rightarrow> uuid \<Rightarrow> uuid \<Rightarrow> uuid
     \<Rightarrow> payload \<Rightarrow> db \<Rightarrow> response http \<times> db" where
  "submit_question_response now uuid_str uuid_parse new_id user aid qid data d =
     (case find (\<lambda>a. attempt_id a = aid \<and> student a = user \<and> status a = InProgress)
             (attempts d) of
        None \<Rightarrow> (Http404, d)
      | Some attempt \<Rightarrow>
          if is_expired now attempt
          then (case save_row now (attempt\<lparr>status := TimeExpired\<rparr>) of
                  Inl e \<Rightarrow> (Http500 e, d)
                | Inr expired \<Rightarrow> (Http400 AttemptExpired, save_attempt expired d))
          else
            (case find (\<lambda>q. question_id q = qid \<and> q_quiz q = a_quiz attempt) (questions d) of
               None \<Rightarrow> (Http404, d)
             | Some question \<Rightarrow>
                 (case find (\<lambda>r. r_attempt r = aid \<and> r_question r = qid) (responses d) of
                    None \<Rightarrow> create_response new_id aid qid data d
                  | Some response \<Rightarrow>
                      update_response uuid_str uuid_parse question response data d)))"

section \<open>views.complete\_quiz\_attempt\<close>

text \<open>The block is atomic: an exception leaves the tables as they were. The analytics row
  that the handler refreshes afterwards is not part of the model; refreshing it reads the
  attempts and writes \<^verbatim>\<open>QuizAnalytics\<close> only.\<close>

definition complete_quiz_attempt :: "datetime \<Rightarrow> uuid \<Rightarrow> uuid \<Rightarrow> db \<Rightarrow> attempt http \<times> db" where
  "complete_quiz_attempt now user aid d =
     (case find (\<lambda>a. attempt_id a = aid \<and> student a = user \<and>
                      (status a = InProgress \<or> status a = TimeExpired))
             (attempts d) of
        None \<Rightarrow> (Http404, d)
      | Some attempt \<Rightarrow>
          (case find (\<lambda>z. quiz_id z = a_quiz attempt) (quizzes d) of
             None \<Rightarrow> (Http500 DoesNotExist, d)
           | Some qz \<Rightarrow>
               (case complete_attempt now qz (attempt_responses (attempt_id attempt) d) attempt of
                  Inl e \<Rightarrow> (Http500 e, d)
                | Inr a' \<Rightarrow> (Http200 a', save_attempt a' d))))"

section \<open>views.grade\_essay\_response\<close>

text \<open>The queryset filter \<^verbatim>\<open>question__quiz__course__instructor=request.user,
  question__question_type='essay'\<close>.\<close>

definition essay_of_instructor :: "uuid \<Rightarrow> db \<Rightarrow> response \<Rightarrow> bool" where
  "essay_of_instructor user d r =
     (case find (\<lambda>q. question_id q = r_question r) (questions d) of
        None \<Rightarrow> False
      | Some q \<Rightarrow>
          qtype q = Essay \<and>
          (case find (\<lambda>z. quiz_id z = q_quiz q) (quizzes d) of
             None \<Rightarrow> False
           | Some qz \<Rightarrow>
               (case find (\<lambda>c. course_id c = course qz) (courses d) of
                  None \<Rightarrow> False
                | Some c \<Rightarrow> instructor c = user)))"

text \<open>The three item assignments on \<^verbatim>\<open>response.response_data\<close>; \<open>graded_at\<close> is the ISO text
  of the clock, handed in by the caller.\<close>

definition store_feedback :: "string \<Rightarrow> string \<Rightarrow> string \<Rightarrow> json \<Rightarrow> error + json" where
  "store_feedback feedback graded_by graded_at rd =
     (case or_empty_dict rd of
        JObj kvs \<Rightarrow>
          Inr (JObj (kvs @ [(''feedback'', JStr feedback),
                            (''graded_by'', JStr graded_by),
                            (''graded_at'', JStr graded_at)]))
      | _ \<Rightarrow> Inl TypeError)"

text \<open>\<^verbatim>\<open>response.attempt.calculate_score(); response.attempt.save()\<close>.\<close>

definition recalculate_attempt :: "datetime \<Rightarrow> uuid \<Rightarrow> db \<Rightarrow> error + db" where
  "recalculate_attempt now aid d =
     (case find (\<lambda>a. attempt_id a = aid) (attempts d) of
        None \<Rightarrow> Inl DoesNotExist
      | Some attempt \<Rightarrow>
          (case find (\<lambda>z. quiz_id z = a_quiz attempt) (quizzes d) of
             None \<Rightarrow> Inl DoesNotExist
           | Some qz \<Rightarrow>
               (case calculate_score qz (attempt_responses (attempt_id attempt) d) attempt of
                  Inl e \<Rightarrow> Inl e
                | Inr a' \<Rightarrow>
                    (case save_row now a' of
                       Inl e \<Rightarrow> Inl e
                     | Inr saved \<Rightarrow> Inr (save_attempt saved d)))))"

definition grade_essay_response ::
  "datetime \<Rightarrow> string \<Rightarrow> string \<Rightarrow> uuid \<Rightarrow> uuid \<Rightarrow> int \<Rightarrow> string \<Rightarrow> db \<Rightarrow> response http \<times> db" where
  "grade_essay_response now graded_at user_name user rid pts feedback d =
     (case find (\<lambda>r. response_id r = rid \<and> essay_of_instructor user d r) (responses d) of
        None \<Rightarrow> (Http404, d)
      | Some response \<Rightarrow>
          (case find (\<lambda>q. question_id q = r_question response) (questions d) of
             None \<Rightarrow> (Http500 DoesNotExist, d)
           | Some question \<Rightarrow>
               if pts < 0 \<or> pts > int (points question)
               then (Http400 (PointsOutOfRange (points question)), d)
               else
                 (case store_feedback feedback user_name graded_at (response_data response) of
                    Inl e \<Rightarrow> (Http500 e, d)
                  | Inr rd \<Rightarrow>
                      let r' = response\<lparr>points_earned := nat pts,
                                        is_correct := (pts = int (points question)),
                                        response_data := rd\<rparr>;
                          d1 = save_response r' d
                      in (case recalculate_attempt now (r_attempt r') d1 of
                            Inl e \<Rightarrow> (Http500 e, d1)
                          | Inr d2 \<Rightarrow> (Http200 r', d2)))))"

section \<open>Question.save, Question.delete and Quiz.calculate\_total\_points\<close>

definition quiz_questions :: "uuid \<Rightarrow> db \<Rightarrow> question list" where
  "quiz_questions qid d = filter (\<lambda>q. q_quiz q = qid) (questions d)"

text \<open>\<^verbatim>\<open>self.save(update_fields=['total_points'])\<close> writes one column of one row.\<close>

definition calculate_total_points :: "quiz \<Rightarrow> db \<Rightarrow> nat \<times> db" where
  "calculate_total_points self d =
     (let total_pts = sum_list (map points (quiz_questions (quiz_id self) d))
      in (total_pts,
          d\<lparr>quizzes := map (\<lambda>x. if quiz_id x = quiz_id self
                                  then x\<lparr>total_points := total_pts\<rparr> else x) (quizzes d)\<rparr>))"

text \<open>\<^verbatim>\<open>Question.save\<close>: the order is assigned when it is \<open>0\<close>, the row is inserted or
  updated (\<^verbatim>\<open>unique_together = ['quiz', 'order']\<close> and the foreign key to the quiz are
  enforced by the database), then the total of the quiz is recomputed.\<close>

definition question_save :: "question \<Rightarrow> db \<Rightarrow> error + db" where
  "question_save self d =
     (let self1 =
            (if q_order self = 0
             then (case queryset_first (rev (sort_key q_order (quiz_questions (q_quiz self) d))) of
                     None \<Rightarrow> self\<lparr>q_order := 1\<rparr>
                   | Some last_question \<Rightarrow> self\<lparr>q_order := q_order last_question + 1\<rparr>)
             else self)
      in if list_ex (\<lambda>q. question_id q \<noteq> question_id self1 \<and> q_quiz q = q_quiz self1 \<and>
                          q_order q = q_order self1) (questions d)
         then Inl IntegrityError
         else
           (case find (\<lambda>z. quiz_id z = q_quiz self1) (quizzes d) of
              None \<Rightarrow> Inl IntegrityError
            | Some qz \<Rightarrow>
                let d1 = d\<lparr>questions :=
                            (if list_ex (\<lambda>q. question_id q = question_id self1) (questions d)
                             then map (\<lambda>q. if question_id q = question_id self1 then self1 else q)
                                    (questions d)
                             else questions d @ [self1])\<rparr>
                in Inr (snd (calculate_total_points qz d1))))"

text \<open>\<^verbatim>\<open>Question\<close> does not override \<^verbatim>\<open>delete\<close>, and the application registers no signal:
  the row goes, and with it (\<^verbatim>\<open>on_delete=CASCADE\<close>) the responses to the question.\<close>

definition question_delete :: "uuid \<Rightarrow> db \<Rightarrow> db" where
  "question_delete qid d =
     d\<lparr>questions := filter (\<lambda>q. question_id q \<noteq> qid) (questions d),
       responses := filter (\<lambda>r. r_question r \<noteq> qid) (responses d)\<rparr>"

text \<open>\<^verbatim>\<open>QuestionDetailView\<close>, method \<^verbatim>\<open>DELETE\<close>: the question of that quiz, if the quiz belongs
  to a course of the teacher.\<close>

definition destroy_question :: "uuid \<Rightarrow> uuid \<Rightarrow> uuid \<Rightarrow> db \<Rightarrow> question http \<times> db" where
  "destroy_question user qzid pk d =
     (case find (\<lambda>q. question_id q = pk \<and> q_quiz q = qzid \<and>
                      (case find (\<lambda>z. quiz_id z = qzid) (quizzes d) of
                         None \<Rightarrow> False
                       | Some qz \<Rightarrow>
                           (case find (\<lambda>c. course_id c = course qz) (courses d) of
                              None \<Rightarrow> False
                            | Some c \<Rightarrow> instructor c = user)))
             (questions d) of
        None \<Rightarrow> (Http404, d)
      | Some q \<Rightarrow> (Http204, question_delete (question_id q) d))"

section \<open>The operations on attempts as one step function\<close>

text \<open>The four handlers that write rows of the attempts table. The handlers for quizzes and
  questions write other tables; deleting a quiz, a student or an enrollment removes the
  attempts that belong to it (\<^verbatim>\<open>on_delete=CASCADE\<close>) and is not a step here.\<close>

datatype operation =
    StartQuizAttempt uuid uuid uuid
  | SubmitQuestionResponse uuid uuid uuid uuid payload
  | CompleteQuizAttempt uuid uuid
  | GradeEssayResponse string string uuid uuid int string

fun step ::
  "datetime \<Rightarrow> (uuid \<Rightarrow> string) \<Rightarrow> (string \<Rightarrow> uuid option) \<Rightarrow> operation \<Rightarrow> db \<Rightarrow> db" where
  "step now uuid_str uuid_parse (StartQuizAttempt new_id user qid) d =
     snd (start_quiz_attempt now new_id user qid d)"
| "step now uuid_str uuid_parse (SubmitQuestionResponse new_id user aid qid data) d =
     snd (submit_question_response now uuid_str uuid_parse new_id user aid qid data d)"
| "step now uuid_str uuid_parse (CompleteQuizAttempt user aid) d =
     snd (complete_quiz_attempt now user aid d)"
| "step now uuid_str uuid_parse (GradeEssayResponse graded_at user_name user rid pts feedback) d =
     snd (grade_essay_response now graded_at user_name user rid pts feedback d)"

text \<open>The server handles the requests one after the other, each at its own clock reading.\<close>

fun run ::
  "(uuid \<Rightarrow> string) \<Rightarrow> (string \<Rightarrow> uuid option) \<Rightarrow> (datetime \<times> operation) list \<Rightarrow> db \<Rightarrow> db" where
  "run uuid_str uuid_parse [] d = d"
| "run uuid_str uuid_parse ((now, oper) # rest) d =
     run uuid_str uuid_parse rest (step now uuid_str uuid_parse oper d)"

section \<open>Sample rows\<close>

text \<open>A quiz with the defaults of the model, its course taught by user 3; student 7 is
  enrolled and has one attempt; one essay question worth ten points.\<close>

definition sample_quiz :: quiz where
  "sample_quiz = \<lparr>quiz_id = 1, course = 1, time_limit_minutes = None, max_attempts = 1,
                   passing_score = 70, total_points = 10, available_from = None,
                   available_until = None, is_active = True, shuffle_questions = False,
                   shuffle_answers = False, show_correct_answers = True,
                   show_score_immediately = True, allow_review = True,
                   require_completion = False\<rparr>"

definition sample_attempt :: attempt where
  "sample_attempt = \<lparr>attempt_id = 1, a_quiz = 1, student = 7, enrollment = Some 1,
                      attempt_number = 1, status = InProgress, score_points = 0,
                      score_percentage = 0, passed = False, a_time_limit_minutes = None,
                      time_spent_seconds = 0, started_at = Some 0, completed_at = None,
                      expires_at = None, quiz_settings = [], created_at = 0, updated_at = 0\<rparr>"

definition sample_question :: question where
  "sample_question = \<lparr>question_id = 1, q_quiz = 1, qtype = Essay, points = 10, q_order = 1,
                       answers = []\<rparr>"

definition sample_response :: response where
  "sample_response = \<lparr>response_id = 1, r_attempt = 1, r_question = 1, selected_answers = [],
                       text_response = ''text'', response_data = JObj [], is_correct = False,
                       points_earned = 0, r_time_spent_seconds = 0\<rparr>"

definition sample_db :: db where
  "sample_db = \<lparr>courses = [\<lparr>course_id = 1, instructor = 3\<rparr>],
                 enrollments = [\<lparr>enrollment_id = 1, e_student = 7, e_course = 1,
                                 e_status = EnrActive\<rparr>],
                 quizzes = [sample_quiz],
                 questions = [sample_question],
                 attempts = [sample_attempt],
                 responses = [sample_response]\<rparr>"

text \<open>The same tables once the attempt has been completed, ninety seconds after its start.\<close>

definition completed_db :: db where
  "completed_db =
     sample_db\<lparr>attempts := [sample_attempt\<lparr>status := Completed,
                                             completed_at := Some 90000000,
                                             time_spent_seconds := 90,
                                             updated_at := 90000000\<rparr>]\<rparr>"

section \<open>Scoring and completion: proofs\<close>

lemmas sample_defs = sample_quiz_def sample_attempt_def sample_question_def sample_response_def
  sample_db_def completed_db_def

text \<open>Evaluating the rounding on numerals.\<close>

lemma floor_rat_numeral [simp]:
  "\<lfloor>numeral a / numeral b :: rat\<rfloor> = numeral a div numeral b"
  by (metis floor_divide_of_int_eq of_int_numeral)

lemma floor_rat_one_numeral [simp]:
  "\<lfloor>1 / numeral b :: rat\<rfloor> = 1 div numeral b"
  by (metis floor_divide_of_int_eq of_int_numeral of_int_1)

lemmas round_double_eval = round_double_def round_double_pos_def halvings.simps doublings.simps
  round_half_even_def Let_def

text \<open>Rounding does not cross an integer, so a rounded number stays within integer bounds.\<close>

lemma round_half_even_le:
  assumes "x \<le> of_int n"
  shows "round_half_even x \<le> n"
proof -
  have fl: "\<lfloor>x\<rfloor> \<le> n"
    using assms by (simp add: floor_le_iff)
  show ?thesis
  proof (cases "x = of_int \<lfloor>x\<rfloor>")
    case True
    then have "x - of_int \<lfloor>x\<rfloor> = 0" by simp
    then have "round_half_even x = \<lfloor>x\<rfloor>"
      by (simp add: round_half_even_def Let_def)
    with fl show ?thesis by simp
  next
    case False
    then have "of_int \<lfloor>x\<rfloor> < x"
      using of_int_floor_le [of x] by linarith
    with assms have "(of_int \<lfloor>x\<rfloor> :: rat) < of_int n" by linarith
    then have "\<lfloor>x\<rfloor> + 1 \<le> n" by simp
    moreover have "round_half_even x \<le> \<lfloor>x\<rfloor> + 1"
      by (simp add: round_half_even_def Let_def)
    ultimately show ?thesis by linarith
  qed
qed

lemma round_half_even_ge:
  assumes "of_int n \<le> x"
  shows "n \<le> round_half_even x"
proof -
  from assms have "n \<le> \<lfloor>x\<rfloor>" by (simp add: le_floor_iff)
  moreover have "\<lfloor>x\<rfloor> \<le> round_half_even x"
    by (simp add: round_half_even_def Let_def)
  ultimately show ?thesis by linarith
qed

lemma round_double_pos_bounds:
  assumes "0 \<le> x" and "x < 2 ^ 53" and "x \<le> of_int n"
  shows "0 \<le> round_double_pos x \<and> round_double_pos x \<le> of_int n"
proof (cases "x = 0")
  case True
  with assms(3) show ?thesis by (simp add: round_double_pos_def)
next
  case False
  from assms(2) have j: "halvings 971 x = 0"
    by (simp add: halvings.simps)
  define k where "k = doublings 1074 x"
  have val: "round_double_pos x = of_int (round_half_even (x * 2 ^ k)) / 2 ^ k"
    using False j by (simp add: round_double_pos_def k_def Let_def)
  have "x * 2 ^ k \<le> of_int (n * 2 ^ k)"
    using assms(3) by (simp add: mult_right_mono)
  from round_half_even_le [OF this]
  have "(of_int (round_half_even (x * 2 ^ k)) :: rat) \<le> of_int (n * 2 ^ k)"
    by (simp only: of_int_le_iff)
  then have up: "(of_int (round_half_even (x * 2 ^ k)) :: rat) / 2 ^ k \<le> of_int n"
    by (simp add: divide_le_eq)
  have "(of_int 0 :: rat) \<le> x * 2 ^ k"
    using assms(1) by simp
  from round_half_even_ge [OF this]
  have "0 \<le> (of_int (round_half_even (x * 2 ^ k)) :: rat) / 2 ^ k"
    by simp
  with up val show ?thesis by simp
qed

lemma round_double_bounds:
  assumes "0 \<le> x" and "x < 2 ^ 53" and "x \<le> of_int n"
  shows "0 \<le> round_double x \<and> round_double x \<le> of_int n"
  using round_double_pos_bounds [OF assms] assms(1) by (simp add: round_double_def)

text \<open>
  C10. For a \<open>true_false\<close> question \<open>evaluate_response\<close> succeeds and sets \<open>is_correct\<close> to
  whether the first answer flagged correct and the first selected answer are the same answer
  (or are both absent), and \<open>points_earned\<close> to the points of the question when correct and
  to \<open>0\<close> otherwise. When no answer is flagged correct and none is selected, the response is
  correct and earns the full points.
\<close>

theorem true_false_first_answers:
  assumes "qtype q = TrueFalse"
  shows "\<exists>r'. evaluate_response uuid_str uuid_parse q r = Inr r' \<and>
           is_correct r' =
             ((case filter ans_is_correct (answers q) of [] \<Rightarrow> None | a # _ \<Rightarrow> Some (answer_id a))
              = (case selected_answers r of [] \<Rightarrow> None | a # _ \<Rightarrow> Some (answer_id a))) \<and>
           points_earned r' = (if is_correct r' then points q else 0) \<and>
           (filter ans_is_correct (answers q) = [] \<and> selected_answers r = []
              \<longrightarrow> is_correct r' \<and> points_earned r' = points q)"
  using assms
  by (auto simp: evaluate_response_def evaluate_is_correct_def split: list.splits)

theorem true_false_first_answers_witness:
  "qtype (sample_question\<lparr>qtype := TrueFalse\<rparr>) = TrueFalse \<and>
   filter ans_is_correct (answers (sample_question\<lparr>qtype := TrueFalse\<rparr>)) = [] \<and>
   selected_answers sample_response = [] \<and>
   (\<exists>r'. evaluate_response (\<lambda>u. []) (\<lambda>s. None) (sample_question\<lparr>qtype := TrueFalse\<rparr>)
            sample_response = Inr r' \<and> is_correct r' \<and> points_earned r' = 10)"
  using true_false_first_answers
          [of "sample_question\<lparr>qtype := TrueFalse\<rparr>" "\<lambda>u. []" "\<lambda>s. None" sample_response]
  by (auto simp: sample_question_def sample_response_def)

text \<open>The loop of \<open>calculate_score\<close> adds the points of the questions answered correctly and
  the points of all questions answered. The first sum is at most the second, so the quotient
  is a double between 0 and 1 and the method always returns: the row it was called on, with
  the three score fields set.\<close>

lemma sum_responses_acc:
  "sum_responses rs t e =
     (t + sum_list (map (\<lambda>(r, q). points q) rs),
      e + sum_list (map (\<lambda>(r, q). if is_correct r then points q else 0) rs))"
  by (induction rs arbitrary: t e) auto

lemma earned_le_total:
  "sum_list (map (\<lambda>(r, q). if is_correct r then points q else 0) rs)
     \<le> sum_list (map (\<lambda>(r, q). points q) rs)"
  by (induction rs) auto

lemma py_truediv_le:
  assumes "a \<le> b" and "0 < b"
  shows "py_truediv a b = Inr (round_double (of_nat a / of_nat b)) \<and>
         0 \<le> round_double (of_nat a / of_nat b :: rat) \<and>
         round_double (of_nat a / of_nat b :: rat) \<le> 1"
proof -
  have x: "(0::rat) \<le> of_nat a / of_nat b" "(of_nat a / of_nat b :: rat) \<le> of_int 1"
    using assms by (simp_all add: divide_le_eq)
  moreover have "(1::rat) < 2 ^ 53"
    by simp
  ultimately have "(of_nat a / of_nat b :: rat) < 2 ^ 53"
    by simp
  from round_double_bounds [OF x(1) this x(2)]
  have b: "0 \<le> round_double (of_nat a / of_nat b)" "round_double (of_nat a / of_nat b) \<le> 1"
    by simp_all
  have "(1::rat) < 2 ^ 1024"
    by simp
  with b(2) have "\<not> 2 ^ 1024 \<le> round_double (of_nat a / of_nat b)"
    by linarith
  with b assms show ?thesis
    by (simp add: py_truediv_def Let_def)
qed

lemma calculate_score_eq:
  "calculate_score qz rs a =
     (let earned = sum_list (map (\<lambda>(r, q). if is_correct r then points q else 0) rs);
          all_points = sum_list (map (\<lambda>(r, q). points q) rs);
          pct = (if 0 < all_points
                 then round_double (round_double (of_nat earned / of_nat all_points) * 100)
                 else 0)
      in Inr (a\<lparr>score_points := earned, score_percentage := pct,
                  passed := (of_nat (passing_score qz) \<le> pct)\<rparr>))"
proof -
  define earned where
    "earned = sum_list (map (\<lambda>(r, q). if is_correct r then points q else 0) rs)"
  define all_points where "all_points = sum_list (map (\<lambda>(r, q). points q) rs)"
  have loop: "sum_responses rs 0 0 = (all_points, earned)"
    by (simp add: sum_responses_acc earned_def all_points_def)
  have le: "earned \<le> all_points"
    unfolding earned_def all_points_def by (rule earned_le_total)
  have "calculate_score qz rs a =
      Inr (a\<lparr>score_points := earned,
               score_percentage :=
                 (if 0 < all_points
                  then round_double (round_double (of_nat earned / of_nat all_points) * 100)
                  else 0),
               passed :=
                 (of_nat (passing_score qz)
                    \<le> (if 0 < all_points
                        then round_double (round_double (of_nat earned / of_nat all_points) * 100)
                        else 0))\<rparr>)"
  proof (cases "0 < all_points")
    case True
    from py_truediv_le [OF le True] True show ?thesis
      by (simp add: calculate_score_def loop)
  next
    case False
    then show ?thesis
      by (simp add: calculate_score_def loop)
  qed
  then show ?thesis
    by (simp only: Let_def earned_def all_points_def)
qed

lemma calculate_score_points:
  assumes "calculate_score qz rs a = Inr a'"
  shows "score_points a' = sum_list (map (\<lambda>(r, q). if is_correct r then points q else 0) rs)"
  using assms by (auto simp: calculate_score_eq Let_def)

lemma calculate_score_shape:
  "\<exists>e pct. \<forall>x. calculate_score qz rs x
     = Inr (x\<lparr>score_points := e, score_percentage := pct,
               passed := (of_nat (passing_score qz) \<le> pct)\<rparr>)"
proof -
  have "\<forall>x. calculate_score qz rs x
      = Inr (x\<lparr>score_points := sum_list (map (\<lambda>(r, q). if is_correct r then points q else 0) rs),
                score_percentage :=
                  (if 0 < sum_list (map (\<lambda>(r, q). points q) rs)
                   then round_double
                          (round_double
                             (of_nat (sum_list (map (\<lambda>(r, q). if is_correct r then points q
                                                              else 0) rs))
                                / of_nat (sum_list (map (\<lambda>(r, q). points q) rs))) * 100)
                   else 0),
                passed :=
                  (of_nat (passing_score qz)
                     \<le> (if 0 < sum_list (map (\<lambda>(r, q). points q) rs)
                         then round_double
                                (round_double
                                   (of_nat (sum_list (map (\<lambda>(r, q). if is_correct r
                                                                    then points q else 0) rs))
                                      / of_nat (sum_list (map (\<lambda>(r, q). points q) rs))) * 100)
                         else 0))\<rparr>)"
    by (simp only: calculate_score_eq Let_def) simp
  then show ?thesis by blast
qed

lemma calculate_score_frame:
  "calculate_score qz rs a = Inr a' \<Longrightarrow>
     a' = a\<lparr>score_points := score_points a', score_percentage := score_percentage a',
            passed := passed a'\<rparr>"
  using calculate_score_shape [of qz rs] by auto

lemma calculate_score_other_row:
  "calculate_score qz rs a = Inr c \<Longrightarrow>
     calculate_score qz rs b
       = Inr (b\<lparr>score_points := score_points c, score_percentage := score_percentage c,
                 passed := passed c\<rparr>)"
  using calculate_score_shape [of qz rs] by auto

lemma calculate_score_points_earned:
  assumes "calculate_score qz rs a = Inr a'"
    and "list_all (\<lambda>(r, q). points_earned r = (if is_correct r then points q else 0)) rs"
  shows "score_points a' = sum_list (map (\<lambda>(r, q). points_earned r) rs)"
proof -
  from assms(2) have "map (\<lambda>(r, q). if is_correct r then points q else 0) rs
      = map (\<lambda>(r, q). points_earned r) rs"
    by (auto simp: list_all_iff)
  with calculate_score_points [OF assms(1)] show ?thesis by simp
qed

text \<open>
  C2. \<open>calculate_score\<close> always returns, and the attempt it returns has \<open>passed\<close> true exactly
  when the stored \<open>score_percentage\<close>, a double, is at least the \<open>passing_score\<close> of the quiz; the
  two are compared as they are, with no rounding of the percentage. With a passing score of 70
  and 69999 of 100000 points earned, the stored percentage is the double nearest to 69.999
  (it differs from 69.999 by less than \<open>10 ^ -14\<close>), and the attempt does not pass.
\<close>

theorem passed_iff_percentage_reaches_passing_score:
  "(\<exists>a'. calculate_score qz rs a = Inr a' \<and>
          passed a' = (of_nat (passing_score qz) \<le> score_percentage a')) \<and>
   passing_score sample_quiz = 70 \<and>
   map_sum id score_percentage
     (calculate_score sample_quiz
        [(sample_response\<lparr>is_correct := True\<rparr>, sample_question\<lparr>points := 69999\<rparr>),
         (sample_response, sample_question\<lparr>points := 30001\<rparr>)] sample_attempt)
     = Inr (2462870861846151 / 35184372088832) \<and>
   \<bar>2462870861846151 / 35184372088832 - 69999 / 1000 :: rat\<bar> < 1 / 10 ^ 14 \<and>
   map_sum id passed
     (calculate_score sample_quiz
        [(sample_response\<lparr>is_correct := True\<rparr>, sample_question\<lparr>points := 69999\<rparr>),
         (sample_response, sample_question\<lparr>points := 30001\<rparr>)] sample_attempt)
     = Inr False"
proof -
  have "\<exists>a'. calculate_score qz rs a = Inr a' \<and>
          passed a' = (of_nat (passing_score qz) \<le> score_percentage a')"
    by (simp add: calculate_score_eq Let_def)
  moreover have "passing_score sample_quiz = 70"
    by (simp add: sample_quiz_def)
  moreover have "\<bar>2462870861846151 / 35184372088832 - 69999 / 1000 :: rat\<bar> < 1 / 10 ^ 14"
    by simp
  moreover have "calculate_score sample_quiz
        [(sample_response\<lparr>is_correct := True\<rparr>, sample_question\<lparr>points := 69999\<rparr>),
         (sample_response, sample_question\<lparr>points := 30001\<rparr>)] sample_attempt
      = Inr (sample_attempt\<lparr>score_points := 69999,
               score_percentage := 2462870861846151 / 35184372088832, passed := False\<rparr>)"
    by (simp add: calculate_score_eq sample_defs round_double_eval)
  ultimately show ?thesis by simp
qed

text \<open>The percentage is the product of two roundings: 29 of 50 points give a double just
  below 58, which does not reach a passing score of 58.\<close>

lemma percentage_rounded_below_threshold:
  "calculate_score (sample_quiz\<lparr>passing_score := 58\<rparr>)
     [(sample_response\<lparr>is_correct := True\<rparr>, sample_question\<lparr>points := 29\<rparr>),
      (sample_response, sample_question\<lparr>points := 21\<rparr>)] sample_attempt
   = Inr (sample_attempt\<lparr>score_points := 29,
            score_percentage := 8162774324609023 / 140737488355328, passed := False\<rparr>)"
  by (simp add: calculate_score_eq sample_defs round_double_eval)

text \<open>The whole seconds between two timestamps with the later one first, and the rows that
  the database stores.\<close>

lemma int_total_seconds_bounds:
  assumes "0 \<le> d" and "d \<le> datetime_max - datetime_min"
  shows "0 \<le> int_total_seconds d \<and> int_total_seconds d \<le> 315537897600"
proof -
  have x0: "(0::rat) \<le> of_int d / 1000000"
    using assms(1) by simp
  have "d \<le> 315537897600 * 1000000"
    using assms(2) by (simp add: datetime_max_def datetime_min_def)
  then have "(of_int d :: rat) \<le> of_int (315537897600 * 1000000)"
    by (simp only: of_int_le_iff)
  then have x1: "(of_int d :: rat) / 1000000 \<le> of_int 315537897600"
    by simp
  have "(of_int 315537897600 :: rat) < 2 ^ 53"
    by simp
  with x1 have x2: "(of_int d :: rat) / 1000000 < 2 ^ 53"
    by (rule order_le_less_trans)
  from round_double_bounds [OF x0 x2 x1]
  have r: "0 \<le> round_double (of_int d / 1000000)"
    "round_double (of_int d / 1000000) \<le> of_int 315537897600"
    by simp_all
  from r(2) have "\<lfloor>round_double (of_int d / 1000000)\<rfloor> \<le> 315537897600"
    by (simp add: floor_le_iff)
  with r(1) show ?thesis
    by (simp add: int_total_seconds_def Let_def)
qed

lemma column_error_auto_now [simp]: "column_error (auto_now now a) = column_error a"
  by (simp add: column_error_def auto_now_def)

lemma column_error_None_iff:
  "column_error a = None \<longleftrightarrow>
     int (attempt_number a) \<le> sqlite_max \<and> int (score_points a) \<le> sqlite_max \<and>
     0 \<le> time_spent_seconds a \<and> time_spent_seconds a \<le> sqlite_max \<and>
     (case a_time_limit_minutes a of None \<Rightarrow> True | Some m \<Rightarrow> int m \<le> sqlite_max)"
  by (auto simp: column_error_def sqlite_max_def split: option.splits)

text \<open>Completing an open attempt that was loaded from the table, with a clock that is not
  behind \<open>started_at\<close> and a score that fits the column.\<close>

lemma complete_attempt_open:
  assumes op: "status a = InProgress \<or> status a = TimeExpired"
    and now: "valid_datetime now"
    and clock: "case started_at a of None \<Rightarrow> True | Some t \<Rightarrow> valid_datetime t \<and> t \<le> now"
    and row: "column_error a = None"
    and fits: "int (sum_list (map (\<lambda>(r, q). if is_correct r then points q else 0) rs))
                 \<le> sqlite_max"
  shows "\<exists>a' c. complete_attempt now qz rs a = Inr a' \<and>
           calculate_score qz rs a = Inr c \<and>
           a' = a\<lparr>status := Completed, completed_at := Some now,
                   time_spent_seconds :=
                     (case started_at a of None \<Rightarrow> time_spent_seconds a
                                        | Some t \<Rightarrow> int_total_seconds (now - t)),
                   score_points := score_points c, score_percentage := score_percentage c,
                   passed := passed c, updated_at := now\<rparr>"
proof -
  define spent where "spent = (case started_at a of None \<Rightarrow> time_spent_seconds a
                                                  | Some t \<Rightarrow> int_total_seconds (now - t))"
  have spent: "0 \<le> spent \<and> spent \<le> sqlite_max"
  proof (cases "started_at a")
    case None
    with row show ?thesis by (simp add: spent_def column_error_None_iff)
  next
    case (Some t)
    with clock now have "0 \<le> now - t" "now - t \<le> datetime_max - datetime_min"
      by (simp_all add: valid_datetime_def)
    from int_total_seconds_bounds [OF this] Some show ?thesis
      by (simp add: spent_def sqlite_max_def)
  qed
  define s2 where "s2 = a\<lparr>status := Completed, completed_at := Some now,
                            time_spent_seconds := spent\<rparr>"
  obtain c where c: "calculate_score qz rs a = Inr c"
    using calculate_score_shape [of qz rs] by blast
  have c_fields: "score_points c = sum_list (map (\<lambda>(r, q). if is_correct r then points q else 0) rs)"
    using calculate_score_points [OF c] .
  have s3: "calculate_score qz rs s2
      = Inr (s2\<lparr>score_points := score_points c, score_percentage := score_percentage c,
                 passed := passed c\<rparr>)"
    using calculate_score_other_row [OF c] .
  have ok: "column_error (s2\<lparr>score_points := score_points c,
                               score_percentage := score_percentage c, passed := passed c\<rparr>) = None"
    using row spent fits c_fields by (simp add: column_error_None_iff s2_def)
  have "complete_attempt now qz rs a
      = Inr (auto_now now (s2\<lparr>score_points := score_points c,
                                score_percentage := score_percentage c, passed := passed c\<rparr>))"
    using op s3 ok
    by (auto simp: complete_attempt_def Let_def save_row_def s2_def spent_def split: option.splits)
  with c show ?thesis
    by (simp add: auto_now_def s2_def spent_def)
qed



text \<open>
  C3, as the code has it. For an attempt with no responses \<open>calculate_score\<close> raises no error
  and yields \<open>score_percentage = 0\<close>, and \<open>passed\<close> is false exactly when the passing score of the
  quiz is above \<open>0\<close> (it is true for a passing score of \<open>0\<close>). Completing such an attempt
  yields a completed attempt with these values when the attempt is open, was loaded from the
  table, and the clock is not behind its \<open>started_at\<close>.
\<close>

theorem complete_without_responses:
  "(\<exists>c. calculate_score qz [] a = Inr c \<and> score_percentage c = 0 \<and>
         passed c = (passing_score qz = 0)) \<and>
   ((status a = InProgress \<or> status a = TimeExpired) \<and> valid_datetime now \<and>
    (case started_at a of None \<Rightarrow> True | Some t \<Rightarrow> valid_datetime t \<and> t \<le> now) \<and>
    column_error a = None
    \<longrightarrow> (\<exists>a'. complete_attempt now qz [] a = Inr a' \<and> status a' = Completed \<and>
              score_percentage a' = 0 \<and> passed a' = (passing_score qz = 0)))"
proof -
  have c: "calculate_score qz [] a
      = Inr (a\<lparr>score_points := 0, score_percentage := 0, passed := (passing_score qz = 0)\<rparr>)"
    by (simp add: calculate_score_eq)
  have "\<exists>a'. complete_attempt now qz [] a = Inr a' \<and> status a' = Completed \<and>
              score_percentage a' = 0 \<and> passed a' = (passing_score qz = 0)"
    if "status a = InProgress \<or> status a = TimeExpired" "valid_datetime now"
       "case started_at a of None \<Rightarrow> True | Some t \<Rightarrow> valid_datetime t \<and> t \<le> now"
       "column_error a = None"
  proof -
    have "int (sum_list (map (\<lambda>(r, q). if is_correct r then points q else 0) [])) \<le> sqlite_max"
      by (simp add: sqlite_max_def)
    from complete_attempt_open [OF that this, of qz] c show ?thesis
      by auto
  qed
  with c show ?thesis by simp
qed

theorem complete_without_responses_witness:
  "(status sample_attempt = InProgress \<or> status sample_attempt = TimeExpired) \<and>
   valid_datetime 90000000 \<and>
   (case started_at sample_attempt of None \<Rightarrow> True
      | Some t \<Rightarrow> valid_datetime t \<and> t \<le> 90000000) \<and>
   column_error sample_attempt = None \<and>
   (\<exists>a'. complete_attempt 90000000 sample_quiz [] sample_attempt = Inr a' \<and>
          status a' = Completed \<and> score_percentage a' = 0 \<and> \<not> passed a')"
proof -
  have h: "(status sample_attempt = InProgress \<or> status sample_attempt = TimeExpired) \<and>
      valid_datetime 90000000 \<and>
      (case started_at sample_attempt of None \<Rightarrow> True
         | Some t \<Rightarrow> valid_datetime t \<and> t \<le> 90000000) \<and>
      column_error sample_attempt = None"
    by (simp add: sample_defs valid_datetime_def datetime_min_def datetime_max_def
          column_error_def sqlite_max_def)
  with complete_without_responses [of sample_quiz sample_attempt 90000000] show ?thesis
    by (simp add: sample_quiz_def)
qed

text \<open>
  C3 as stated (\<open>passed\<close> false whatever the passing score) fails: with a passing score of
  \<open>0\<close>, which the validators of \<open>Quiz.passing_score\<close> admit, the comparison \<open>0 \<ge> 0\<close> makes the
  empty attempt pass.
\<close>

theorem complete_without_responses_passes_at_zero:
  "map_sum id passed (complete_attempt 90000000 (sample_quiz\<lparr>passing_score := 0\<rparr>) []
     sample_attempt) = Inr True"
  by (simp add: sample_defs complete_attempt_def calculate_score_def save_row_def
        column_error_def sqlite_max_def auto_now_def int_total_seconds_def round_double_eval)



text \<open>Outside these conditions \<^verbatim>\<open>save()\<close> fails and the attempt stays open: here the clock
  reads five seconds less than \<open>started_at\<close>.\<close>

lemma complete_attempt_clock_behind:
  "complete_attempt 0 sample_quiz [] (sample_attempt\<lparr>started_at := Some 5000000\<rparr>)
     = Inl IntegrityError"
  by (simp add: sample_defs complete_attempt_def calculate_score_def save_row_def
        column_error_def sqlite_max_def auto_now_def int_total_seconds_def round_double_eval)

text \<open>
  C1. A teacher grades the essay response of the completed attempt with 5 of the 10 points of
  its question. \<open>grade_essay_response\<close> stores \<open>points_earned = 5\<close> and recalculates the attempt:
  the sum of \<open>points_earned\<close> over the responses of the attempt is 5 and 5/10 is 50 percent,
  but \<open>calculate_score\<close> adds the points of a question only when the response is flagged
  correct, so the attempt keeps \<open>score_points = 0\<close> and \<open>score_percentage = 0\<close>.
\<close>

theorem partial_essay_credit_not_in_score:
  "fst (grade_essay_response 100000000 ''2026-01-01T00:00:00'' ''Teacher'' 3 1 5 ''half''
          completed_db)
     = Http200 (sample_response\<lparr>points_earned := 5,
                  response_data := JObj [(''feedback'', JStr ''half''),
                                         (''graded_by'', JStr ''Teacher''),
                                         (''graded_at'', JStr ''2026-01-01T00:00:00'')]\<rparr>) \<and>
   map points_earned
     (responses (snd (grade_essay_response 100000000 ''2026-01-01T00:00:00'' ''Teacher'' 3 1 5
                        ''half'' completed_db))) = [5] \<and>
   map score_points
     (attempts (snd (grade_essay_response 100000000 ''2026-01-01T00:00:00'' ''Teacher'' 3 1 5
                       ''half'' completed_db))) = [0] \<and>
   map score_percentage
     (attempts (snd (grade_essay_response 100000000 ''2026-01-01T00:00:00'' ''Teacher'' 3 1 5
                       ''half'' completed_db))) = [0]"
  by (simp add: sample_defs grade_essay_response_def essay_of_instructor_def store_feedback_def
        or_empty_dict_def save_response_def recalculate_attempt_def attempt_responses_def
        calculate_score_eq save_row_def column_error_def sqlite_max_def save_attempt_def
        auto_now_def round_double_eval)

section \<open>Starting an attempt: proofs\<close>

text \<open>
  C8. A not yet started attempt of a quiz with \<open>require_completion\<close> set is started: the
  stored \<open>quiz_settings\<close> holds five flags and has no entry for \<open>require_completion\<close>.
\<close>

theorem require_completion_not_in_snapshot:
  "map_sum id quiz_settings
     (start_attempt 0 (sample_quiz\<lparr>require_completion := True\<rparr>)
        (sample_attempt\<lparr>status := NotStarted, started_at := None\<rparr>))
     = Inr [(''shuffle_questions'', False), (''shuffle_answers'', False),
            (''show_correct_answers'', True), (''show_score_immediately'', True),
            (''allow_review'', True)]"
  by (simp add: sample_defs start_attempt_def save_row_def column_error_def sqlite_max_def
        auto_now_def Let_def)

text \<open>
  C6 as stated fails for the student who is not enrolled: the enrollment is looked up with
  \<^verbatim>\<open>get_object_or_404\<close>, so student 8, who has no enrollment, is answered 404 (not found) and
  not the 400 of a failed validation.
\<close>

theorem unenrolled_start_is_not_found:
  "fst (start_quiz_attempt 0 2 8 1 sample_db) = Http404 \<and>
   fst (start_quiz_attempt 0 2 8 1 sample_db) \<noteq> Http400 QuizNotAvailable"
  by (simp add: sample_defs start_quiz_attempt_def Let_def)

text \<open>
  C6, as the code has it. For an existing quiz, \<open>start_quiz_attempt\<close> refuses and leaves every
  table as it was: with 404 when the student has no active enrollment in the course of the
  quiz; with 400 when the student is enrolled and the quiz is not available; with 400 when the
  student is enrolled, the quiz is available and the attempts of the student on the quiz have
  reached \<open>max_attempts\<close>.
\<close>

theorem start_quiz_attempt_refusals:
  assumes "find (\<lambda>z. quiz_id z = qid) (quizzes d) = Some qz"
  shows
    "(find (\<lambda>e. e_student e = user \<and> e_course e = course qz \<and> e_status e = EnrActive)
        (enrollments d) = None
      \<longrightarrow> start_quiz_attempt now new_id user qid d = (Http404, d)) \<and>
     (find (\<lambda>e. e_student e = user \<and> e_course e = course qz \<and> e_status e = EnrActive)
        (enrollments d) \<noteq> None \<and> \<not> is_available now qz
      \<longrightarrow> start_quiz_attempt now new_id user qid d = (Http400 QuizNotAvailable, d)) \<and>
     (find (\<lambda>e. e_student e = user \<and> e_course e = course qz \<and> e_status e = EnrActive)
        (enrollments d) \<noteq> None \<and> is_available now qz \<and>
      max_attempts qz \<le> length (filter (\<lambda>a. a_quiz a = qid \<and> student a = user) (attempts d))
      \<longrightarrow> start_quiz_attempt now new_id user qid d
            = (Http400 (MaxAttemptsReached (max_attempts qz)), d))"
proof -
  from assms have qid: "quiz_id qz = qid"
    by (auto simp: find_Some_iff)
  show ?thesis
    using assms qid
    by (auto simp: start_quiz_attempt_def attempts_of_def Let_def)
qed

theorem start_quiz_attempt_refusals_witness:
  "start_quiz_attempt 0 2 8 1 sample_db = (Http404, sample_db) \<and>
   start_quiz_attempt 0 2 7 1 (sample_db\<lparr>quizzes := [sample_quiz\<lparr>is_active := False\<rparr>]\<rparr>)
     = (Http400 QuizNotAvailable, sample_db\<lparr>quizzes := [sample_quiz\<lparr>is_active := False\<rparr>]\<rparr>) \<and>
   start_quiz_attempt 0 2 7 1 sample_db = (Http400 (MaxAttemptsReached 1), sample_db)"
  using start_quiz_attempt_refusals [of 1 sample_db sample_quiz 8 0 2]
        start_quiz_attempt_refusals
          [of 1 "sample_db\<lparr>quizzes := [sample_quiz\<lparr>is_active := False\<rparr>]\<rparr>"
              "sample_quiz\<lparr>is_active := False\<rparr>" 7 0 2]
        start_quiz_attempt_refusals [of 1 sample_db sample_quiz 7 0 2]
  by (simp add: sample_defs is_available_def)

text \<open>Facts about the queryset helpers, about \<^verbatim>\<open>save()\<close> and about the creation of a row.\<close>

lemma find_SomeD: "find P xs = Some x \<Longrightarrow> P x \<and> x \<in> set xs"
  by (auto simp: find_Some_iff)

lemma queryset_first_SomeD: "queryset_first xs = Some x \<Longrightarrow> x \<in> set xs"
  by (cases xs) auto

lemma map_replace_fresh:
  "\<forall>x \<in> set xs. attempt_id x \<noteq> i \<Longrightarrow>
     map (\<lambda>x. if attempt_id x = i then a else x) xs = xs"
  by (induction xs) auto

lemma save_row_Inr: "save_row now a = Inr a' \<Longrightarrow> a' = a\<lparr>updated_at := now\<rparr>"
  by (auto simp: save_row_def auto_now_def split: option.splits)

lemma save_row_stored:
  "column_error a = None \<Longrightarrow> save_row now a = Inr (a\<lparr>updated_at := now\<rparr>)"
  by (simp add: save_row_def) (simp add: auto_now_def)

lemma limit_fits:
  assumes "valid_datetime now" and "now + int m * 60000000 \<le> datetime_max"
  shows "int m \<le> sqlite_max"
  using assms by (simp add: valid_datetime_def datetime_min_def datetime_max_def sqlite_max_def)

lemma create_and_start_fresh:
  assumes fresh: "\<forall>x \<in> set (attempts d). attempt_id x \<noteq> new_id \<and>
             \<not> (a_quiz x = quiz_id qz \<and> student x = user \<and> attempt_number x = Suc n)"
    and now: "valid_datetime now"
    and limit: "case time_limit_minutes qz of None \<Rightarrow> True
                | Some m \<Rightarrow> m = 0 \<or> now + int m * 60000000 \<le> datetime_max"
    and number: "int (Suc n) \<le> sqlite_max"
  shows "create_and_start now new_id qz user enr n d =
     (let new = \<lparr>attempt_id = new_id, a_quiz = quiz_id qz, student = user,
                  enrollment = Some (enrollment_id enr),
                  attempt_number = Suc n, status = InProgress,
                  score_points = 0, score_percentage = 0, passed = False,
                  a_time_limit_minutes =
                    (case time_limit_minutes qz of
                       None \<Rightarrow> None | Some m \<Rightarrow> if m = 0 then None else Some m),
                  time_spent_seconds = 0, started_at = Some now, completed_at = None,
                  expires_at =
                    (case time_limit_minutes qz of
                       None \<Rightarrow> None
                     | Some m \<Rightarrow> if m = 0 then None else Some (now + int m * 60000000)),
                  quiz_settings =
                    [(''shuffle_questions'', shuffle_questions qz),
                     (''shuffle_answers'', shuffle_answers qz),
                     (''show_correct_answers'', show_correct_answers qz),
                     (''show_score_immediately'', show_score_immediately qz),
                     (''allow_review'', allow_review qz)],
                  created_at = now, updated_at = now\<rparr>
      in (Http201 new, d\<lparr>attempts := attempts d @ [new]\<rparr>))"
proof -
  define a0 where
    "a0 = \<lparr>attempt_id = new_id, a_quiz = quiz_id qz, student = user,
            enrollment = Some (enrollment_id enr), attempt_number = n + 1,
            status = NotStarted, score_points = 0, score_percentage = 0, passed = False,
            a_time_limit_minutes = None, time_spent_seconds = 0, started_at = None,
            completed_at = None, expires_at = None, quiz_settings = [],
            created_at = now, updated_at = now\<rparr>"
  from fresh have ex: "\<not> list_ex (\<lambda>x. attempt_id x = new_id \<or>
       (a_quiz x = quiz_id qz \<and> student x = user \<and> attempt_number x = n + 1)) (attempts d)"
    by (auto simp: list_ex_iff)
  from fresh have no_id: "\<forall>x \<in> set (attempts d). attempt_id x \<noteq> new_id"
    by blast
  have zero: "(0::int) \<le> sqlite_max"
    by (simp add: sqlite_max_def)
  have ce0: "column_error a0 = None"
    using number zero by (simp add: column_error_None_iff a0_def)
  have created: "create_attempt now new_id qz user enr (n + 1) d
      = Inr (a0, d\<lparr>attempts := attempts d @ [a0]\<rparr>)"
    using ex ce0 unfolding create_attempt_def Let_def a0_def [symmetric] by simp
  define settings where
    "settings = [(''shuffle_questions'', shuffle_questions qz),
                 (''shuffle_answers'', shuffle_answers qz),
                 (''show_correct_answers'', show_correct_answers qz),
                 (''show_score_immediately'', show_score_immediately qz),
                 (''allow_review'', allow_review qz)]"
  define new where
    "new = a0\<lparr>status := InProgress, started_at := Some now,
               a_time_limit_minutes :=
                 (case time_limit_minutes qz of
                    None \<Rightarrow> None | Some m \<Rightarrow> if m = 0 then None else Some m),
               expires_at :=
                 (case time_limit_minutes qz of
                    None \<Rightarrow> None
                  | Some m \<Rightarrow> if m = 0 then None else Some (now + int m * 60000000)),
               quiz_settings := settings, updated_at := now\<rparr>"
  have started: "start_attempt now qz a0 = Inr new"
  proof (cases "time_limit_minutes qz")
    case None
    have "column_error (a0\<lparr>status := InProgress, started_at := Some now,
                            quiz_settings := settings\<rparr>) = None"
      using ce0 by (simp add: column_error_None_iff)
    from save_row_stored [OF this] None show ?thesis
      by (simp add: start_attempt_def Let_def new_def settings_def a0_def)
  next
    case (Some m)
    show ?thesis
    proof (cases "m = 0")
      case True
      have "column_error (a0\<lparr>status := InProgress, started_at := Some now,
                              quiz_settings := settings\<rparr>) = None"
        using ce0 by (simp add: column_error_None_iff)
      from save_row_stored [OF this] Some True show ?thesis
        by (simp add: start_attempt_def Let_def new_def settings_def a0_def)
    next
      case False
      with limit Some have le: "now + int m * 60000000 \<le> datetime_max"
        by simp
      from limit_fits [OF now le] have "column_error
          (a0\<lparr>status := InProgress, started_at := Some now, a_time_limit_minutes := Some m,
                expires_at := Some (now + minutes m), quiz_settings := settings\<rparr>) = None"
        using ce0 by (simp add: column_error_None_iff)
      from save_row_stored [OF this] Some False le show ?thesis
        by (simp add: start_attempt_def Let_def new_def settings_def a0_def minutes_def)
    qed
  qed
  have new_id: "attempt_id new = new_id"
    by (simp add: new_def a0_def)
  have "create_and_start now new_id qz user enr n d
      = (Http201 new, d\<lparr>attempts := attempts d @ [new]\<rparr>)"
    using created started new_id
    by (simp add: create_and_start_def save_attempt_def map_replace_fresh [OF no_id] a0_def)
  then show ?thesis
    by (simp add: new_def a0_def settings_def Let_def)
qed

text \<open>
  C5, as the code has it. Let the preconditions of start hold: the quiz exists and is
  available, the student is actively enrolled, and the attempts of the student on the quiz are
  fewer than \<open>max_attempts\<close>. Let the tables be as the database keeps them (every attempt
  satisfies its column constraints, \<open>max_attempts\<close> fits its column), the clock be a
  \<^verbatim>\<open>datetime\<close>, and the new row violate no uniqueness constraint (its id is unused, and no
  attempt of the pair carries the number count + 1). Let the time limit of the quiz, when it
  is set and not \<open>0\<close>, not carry the expiry past \<^verbatim>\<open>datetime.max\<close>. Then \<open>start_quiz_attempt\<close>
  looks at the newest \<open>in_progress\<close> attempt of the pair. If there is one and it is not
  expired, the answer is that attempt and no table changes. If it is expired, it becomes
  \<open>time_expired\<close>; then, as when there is none, a new attempt is appended with number
  count + 1, status \<open>in_progress\<close>, \<open>started_at = now\<close>, the snapshot of five flags, and
  \<open>expires_at = now + time_limit_minutes\<close> exactly when the quiz has a time limit other than
  \<open>0\<close>.
\<close>

theorem start_quiz_attempt_resumes_or_creates:
  assumes quiz: "find (\<lambda>z. quiz_id z = qid) (quizzes d) = Some qz"
    and enr: "find (\<lambda>e. e_student e = user \<and> e_course e = course qz \<and> e_status e = EnrActive)
                (enrollments d) = Some enr"
    and avail: "is_available now qz"
    and below: "length (filter (\<lambda>a. a_quiz a = qid \<and> student a = user) (attempts d))
                  < max_attempts qz"
    and fresh: "\<forall>x \<in> set (attempts d). attempt_id x \<noteq> new_id \<and>
                  \<not> (a_quiz x = qid \<and> student x = user \<and>
                     attempt_number x
                       = Suc (length (filter (\<lambda>a. a_quiz a = qid \<and> student a = user)
                                        (attempts d))))"
    and clock: "valid_datetime now"
    and limit: "case time_limit_minutes qz of None \<Rightarrow> True
                | Some m \<Rightarrow> m = 0 \<or> now + int m * 60000000 \<le> datetime_max"
    and quiz_row: "int (max_attempts qz) \<le> sqlite_max"
    and rows: "list_all (\<lambda>x. column_error x = None) (attempts d)"
  shows "start_quiz_attempt now new_id user qid d =
     (let new = \<lparr>attempt_id = new_id, a_quiz = qid, student = user,
                  enrollment = Some (enrollment_id enr),
                  attempt_number =
                    Suc (length (filter (\<lambda>a. a_quiz a = qid \<and> student a = user) (attempts d))),
                  status = InProgress,
                  score_points = 0, score_percentage = 0, passed = False,
                  a_time_limit_minutes =
                    (case time_limit_minutes qz of
                       None \<Rightarrow> None | Some m \<Rightarrow> if m = 0 then None else Some m),
                  time_spent_seconds = 0, started_at = Some now, completed_at = None,
                  expires_at =
                    (case time_limit_minutes qz of
                       None \<Rightarrow> None
                     | Some m \<Rightarrow> if m = 0 then None else Some (now + int m * 60000000)),
                  quiz_settings =
                    [(''shuffle_questions'', shuffle_questions qz),
                     (''shuffle_answers'', shuffle_answers qz),
                     (''show_correct_answers'', show_correct_answers qz),
                     (''show_score_immediately'', show_score_immediately qz),
                     (''allow_review'', allow_review qz)],
                  created_at = now, updated_at = now\<rparr>
      in case filter (\<lambda>a. a_quiz a = qid \<and> student a = user \<and> status a = InProgress)
                (rev (attempts d)) of
           [] \<Rightarrow> (Http201 new, d\<lparr>attempts := attempts d @ [new]\<rparr>)
         | ip # _ \<Rightarrow>
             if (case expires_at ip of None \<Rightarrow> False | Some t \<Rightarrow> now > t)
             then (Http201 new,
                   d\<lparr>attempts :=
                       map (\<lambda>x. if attempt_id x = attempt_id ip
                                 then ip\<lparr>status := TimeExpired, updated_at := now\<rparr> else x)
                         (attempts d) @ [new]\<rparr>)
             else (Http200 ip, d))"
proof -
  let ?mine = "\<lambda>a. a_quiz a = qid \<and> student a = user"
  let ?n = "length (filter ?mine (attempts d))"
  from quiz have qid: "quiz_id qz = qid"
    by (auto dest: find_SomeD)
  have count: "length (attempts_of qid user d) = ?n"
    by (simp add: attempts_of_def)
  have open_eq: "filter (\<lambda>a. status a = InProgress) (attempts_of qid user d)
      = filter (\<lambda>a. a_quiz a = qid \<and> student a = user \<and> status a = InProgress) (rev (attempts d))"
    by (auto simp: attempts_of_def rev_filter intro: filter_cong)
  from below quiz_row have number: "int (Suc ?n) \<le> sqlite_max"
    by linarith
  show ?thesis
  proof (cases "filter (\<lambda>a. a_quiz a = qid \<and> student a = user \<and> status a = InProgress)
                  (rev (attempts d))")
    case Nil
    from fresh qid have "\<forall>x \<in> set (attempts d). attempt_id x \<noteq> new_id \<and>
             \<not> (a_quiz x = quiz_id qz \<and> student x = user \<and> attempt_number x = Suc ?n)"
      by simp
    from create_and_start_fresh [OF this clock limit number] show ?thesis
      using quiz enr avail below qid count open_eq Nil
      by (simp add: start_quiz_attempt_def Let_def)
  next
    case (Cons ip rest)
    then have "ip \<in> set (filter (\<lambda>a. a_quiz a = qid \<and> student a = user \<and> status a = InProgress)
                          (rev (attempts d)))"
      by simp
    then have ip_in: "ip \<in> set (attempts d)"
      by simp
    show ?thesis
    proof (cases "is_expired now ip")
      case False
      then show ?thesis
        using quiz enr avail below qid count open_eq Cons
        by (simp add: start_quiz_attempt_def Let_def is_expired_def)
    next
      case True
      from rows ip_in have "column_error (ip\<lparr>status := TimeExpired\<rparr>) = None"
        by (auto simp: list_all_iff column_error_None_iff)
      from save_row_stored [OF this]
      have saved: "save_row now (ip\<lparr>status := TimeExpired\<rparr>)
          = Inr (ip\<lparr>status := TimeExpired, updated_at := now\<rparr>)"
        by simp
      let ?d0 = "save_attempt (ip\<lparr>status := TimeExpired, updated_at := now\<rparr>) d"
      have "\<forall>x \<in> set (attempts ?d0). attempt_id x \<noteq> new_id \<and>
             \<not> (a_quiz x = quiz_id qz \<and> student x = user \<and> attempt_number x = Suc ?n)"
        using fresh ip_in qid
        by (auto simp: save_attempt_def)
      from create_and_start_fresh [OF this clock limit number] True saved show ?thesis
        using quiz enr avail below qid count open_eq Cons
        by (simp add: start_quiz_attempt_def Let_def is_expired_def save_attempt_def)
    qed
  qed
qed

theorem start_quiz_attempt_resumes_or_creates_witness:
  "start_quiz_attempt 5 2 7 1 (sample_db\<lparr>quizzes := [sample_quiz\<lparr>max_attempts := 2\<rparr>]\<rparr>)
     = (Http200 sample_attempt, sample_db\<lparr>quizzes := [sample_quiz\<lparr>max_attempts := 2\<rparr>]\<rparr>) \<and>
   start_quiz_attempt 2000000000 2 7 1
     (sample_db\<lparr>quizzes := [sample_quiz\<lparr>max_attempts := 2, time_limit_minutes := Some 30\<rparr>],
                attempts := [sample_attempt\<lparr>expires_at := Some 1800000000\<rparr>]\<rparr>)
     = (Http201
          \<lparr>attempt_id = 2, a_quiz = 1, student = 7, enrollment = Some 1, attempt_number = 2,
             status = InProgress, score_points = 0, score_percentage = 0, passed = False,
             a_time_limit_minutes = Some 30, time_spent_seconds = 0,
             started_at = Some 2000000000, completed_at = None,
             expires_at = Some 3800000000,
             quiz_settings =
               [(''shuffle_questions'', False), (''shuffle_answers'', False),
                (''show_correct_answers'', True), (''show_score_immediately'', True),
                (''allow_review'', True)],
             created_at = 2000000000, updated_at = 2000000000\<rparr>,
        sample_db\<lparr>quizzes := [sample_quiz\<lparr>max_attempts := 2, time_limit_minutes := Some 30\<rparr>],
                  attempts :=
                    [sample_attempt\<lparr>expires_at := Some 1800000000, status := TimeExpired,
                                     updated_at := 2000000000\<rparr>,
                     \<lparr>attempt_id = 2, a_quiz = 1, student = 7, enrollment = Some 1,
                        attempt_number = 2, status = InProgress, score_points = 0,
                        score_percentage = 0, passed = False,
                        a_time_limit_minutes = Some 30, time_spent_seconds = 0,
                        started_at = Some 2000000000, completed_at = None,
                        expires_at = Some 3800000000,
                        quiz_settings =
                          [(''shuffle_questions'', False), (''shuffle_answers'', False),
                           (''show_correct_answers'', True), (''show_score_immediately'', True),
                           (''allow_review'', True)],
                        created_at = 2000000000, updated_at = 2000000000\<rparr>]\<rparr>)"
  using start_quiz_attempt_resumes_or_creates
          [of 1 "sample_db\<lparr>quizzes := [sample_quiz\<lparr>max_attempts := 2\<rparr>]\<rparr>"
              "sample_quiz\<lparr>max_attempts := 2\<rparr>" 7
              "\<lparr>enrollment_id = 1, e_student = 7, e_course = 1, e_status = EnrActive\<rparr>" 5 2]
        start_quiz_attempt_resumes_or_creates
          [of 1 "sample_db\<lparr>quizzes := [sample_quiz\<lparr>max_attempts := 2,
                                                    time_limit_minutes := Some 30\<rparr>],
                           attempts := [sample_attempt\<lparr>expires_at := Some 1800000000\<rparr>]\<rparr>"
              "sample_quiz\<lparr>max_attempts := 2, time_limit_minutes := Some 30\<rparr>" 7
              "\<lparr>enrollment_id = 1, e_student = 7, e_course = 1, e_status = EnrActive\<rparr>"
              2000000000 2]
  by (simp add: sample_defs is_available_def Let_def valid_datetime_def datetime_min_def
        datetime_max_def sqlite_max_def column_error_def)

text \<open>
  C5 as stated fails inside the preconditions of start (an enrolled student, an available
  quiz, fewer attempts than \<open>max_attempts\<close>). A quiz with \<open>time_limit_minutes = 0\<close> defines the
  field, and the new attempt has no \<open>expires_at\<close>: the test \<^verbatim>\<open>if self.quiz.time_limit_minutes\<close>
  takes \<open>0\<close> for no limit. A limit of 5000000000 minutes carries the expiry past
  \<^verbatim>\<open>datetime.max\<close>: \<^verbatim>\<open>OverflowError\<close>, and no attempt is created. When the only attempt of the
  pair is numbered 2, the next number, count + 1 = 2, is taken and the database refuses the
  row.
\<close>

theorem start_without_expiry_or_row:
  "start_quiz_attempt 5 2 7 1
     (sample_db\<lparr>quizzes := [sample_quiz\<lparr>time_limit_minutes := Some 0\<rparr>], attempts := []\<rparr>)
     = (Http201
          \<lparr>attempt_id = 2, a_quiz = 1, student = 7, enrollment = Some 1, attempt_number = 1,
             status = InProgress, score_points = 0, score_percentage = 0, passed = False,
             a_time_limit_minutes = None, time_spent_seconds = 0, started_at = Some 5,
             completed_at = None, expires_at = None,
             quiz_settings =
               [(''shuffle_questions'', False), (''shuffle_answers'', False),
                (''show_correct_answers'', True), (''show_score_immediately'', True),
                (''allow_review'', True)],
             created_at = 5, updated_at = 5\<rparr>,
        sample_db\<lparr>quizzes := [sample_quiz\<lparr>time_limit_minutes := Some 0\<rparr>],
                  attempts :=
                    [\<lparr>attempt_id = 2, a_quiz = 1, student = 7, enrollment = Some 1,
                        attempt_number = 1, status = InProgress, score_points = 0,
                        score_percentage = 0, passed = False, a_time_limit_minutes = None,
                        time_spent_seconds = 0, started_at = Some 5, completed_at = None,
                        expires_at = None,
                        quiz_settings =
                          [(''shuffle_questions'', False), (''shuffle_answers'', False),
                           (''show_correct_answers'', True), (''show_score_immediately'', True),
                           (''allow_review'', True)],
                        created_at = 5, updated_at = 5\<rparr>]\<rparr>) \<and>
   start_quiz_attempt 5 2 7 1
     (sample_db\<lparr>quizzes := [sample_quiz\<lparr>time_limit_minutes := Some 5000000000\<rparr>],
                attempts := []\<rparr>)
     = (Http500 OverflowError,
        sample_db\<lparr>quizzes := [sample_quiz\<lparr>time_limit_minutes := Some 5000000000\<rparr>],
                  attempts := []\<rparr>) \<and>
   start_quiz_attempt 5 2 7 1
     (sample_db\<lparr>quizzes := [sample_quiz\<lparr>max_attempts := 3\<rparr>],
                attempts := [sample_attempt\<lparr>status := Completed, attempt_number := 2\<rparr>]\<rparr>)
     = (Http500 IntegrityError,
        sample_db\<lparr>quizzes := [sample_quiz\<lparr>max_attempts := 3\<rparr>],
                  attempts := [sample_attempt\<lparr>status := Completed, attempt_number := 2\<rparr>]\<rparr>)"
  by (simp add: sample_defs start_quiz_attempt_def attempts_of_def is_available_def
        create_and_start_def create_attempt_def start_attempt_def save_row_def column_error_def
        sqlite_max_def datetime_max_def save_attempt_def auto_now_def minutes_def Let_def)

section \<open>Question mutations: proofs\<close>

text \<open>\<open>Question.save\<close> leaves the total of the quiz equal to the sum of the points of its
  questions; neither it nor the deletion touches the attempts.\<close>

lemma question_save_total_points:
  assumes "question_save q d = Inr d'" and "z \<in> set (quizzes d')" and "quiz_id z = q_quiz q"
  shows "total_points z = sum_list (map points (quiz_questions (q_quiz q) d'))"
  using assms
  by (auto simp: question_save_def calculate_total_points_def quiz_questions_def Let_def
           dest!: find_SomeD split: if_splits option.splits)

lemma question_save_attempts: "question_save q d = Inr d' \<Longrightarrow> attempts d' = attempts d"
  by (auto simp: question_save_def calculate_total_points_def Let_def
           split: if_splits option.splits)

lemma destroy_question_attempts [simp]:
  "attempts (snd (destroy_question user qzid pk d)) = attempts d"
  by (simp add: destroy_question_def question_delete_def split: option.splits)

text \<open>
  C9. Saving the ten-point question into the empty quiz sets \<open>total_points\<close> to 10. The teacher
  then deletes the question through \<open>QuestionDetailView\<close>: the quiz has no question left, and
  its \<open>total_points\<close> is still 10.
\<close>

theorem total_points_stale_after_delete:
  "question_save sample_question
     (sample_db\<lparr>quizzes := [sample_quiz\<lparr>total_points := 0\<rparr>], questions := [],
                responses := []\<rparr>)
     = Inr (sample_db\<lparr>responses := []\<rparr>) \<and>
   fst (destroy_question 3 1 1 (sample_db\<lparr>responses := []\<rparr>)) = Http204 \<and>
   questions (snd (destroy_question 3 1 1 (sample_db\<lparr>responses := []\<rparr>))) = [] \<and>
   map total_points (quizzes (snd (destroy_question 3 1 1 (sample_db\<lparr>responses := []\<rparr>))))
     = [10]"
  by (simp add: sample_defs question_save_def quiz_questions_def calculate_total_points_def
        destroy_question_def question_delete_def Let_def)

section \<open>Attempts in a terminal status: proofs\<close>

text \<open>Writing a row of the attempts table.\<close>

lemma save_attempt_length [simp]:
  "length (attempts (save_attempt a d)) = length (attempts d)"
  by (simp add: save_attempt_def)

lemma save_attempt_nth:
  "i < length (attempts d) \<Longrightarrow>
     attempts (save_attempt a d) ! i
       = (if attempt_id (attempts d ! i) = attempt_id a then a else attempts d ! i)"
  by (simp add: save_attempt_def)

lemma save_attempt_ids [simp]:
  "map attempt_id (attempts (save_attempt a d)) = map attempt_id (attempts d)"
  by (simp add: save_attempt_def)

lemma attempts_save_response [simp]: "attempts (save_response r d) = attempts d"
  by (simp add: save_response_def)

lemma distinct_ids_same_row:
  assumes "distinct (map attempt_id xs)" and "x \<in> set xs" and "i < length xs"
    and "attempt_id (xs ! i) = attempt_id x"
  shows "xs ! i = x"
proof -
  from assms(2) obtain j where j: "j < length xs" "xs ! j = x"
    by (auto simp: in_set_conv_nth)
  have "i = j"
    using nth_eq_iff_index_eq [OF assms(1), of i j] assms(3,4) j by simp
  with j(2) show ?thesis by simp
qed

text \<open>Saving a row whose stored status differs from that of row \<open>i\<close> leaves row \<open>i\<close>.\<close>

lemma save_other_row:
  assumes "distinct (map attempt_id (attempts d))" and "i < length (attempts d)"
    and "x \<in> set (attempts d)" and "status x \<noteq> status (attempts d ! i)"
    and "attempt_id a = attempt_id x"
  shows "attempts (save_attempt a d) ! i = attempts d ! i"
proof -
  have "attempt_id (attempts d ! i) \<noteq> attempt_id x"
    using distinct_ids_same_row [OF assms(1,3,2)] assms(4) by auto
  with assms(2,5) show ?thesis
    by (simp add: save_attempt_nth)
qed

lemma start_attempt_id: "start_attempt now qz a = Inr a' \<Longrightarrow> attempt_id a' = attempt_id a"
  by (auto simp: start_attempt_def Let_def dest!: save_row_Inr
           split: if_splits option.splits sum.splits)

lemma calculate_score_id: "calculate_score qz rs a = Inr a' \<Longrightarrow> attempt_id a' = attempt_id a"
  using calculate_score_shape [of qz rs] by auto

lemma complete_attempt_id:
  "complete_attempt now qz rs a = Inr a' \<Longrightarrow> attempt_id a' = attempt_id a"
  by (auto simp: complete_attempt_def Let_def dest!: save_row_Inr calculate_score_id
           split: if_splits option.splits sum.splits)

text \<open>What each handler does to a row that is not open.\<close>

lemma create_and_start_frame:
  assumes "i < length (attempts d)"
  shows "i < length (attempts (snd (create_and_start now new_id qz user enr n d))) \<and>
         attempts (snd (create_and_start now new_id qz user enr n d)) ! i = attempts d ! i"
proof (cases "create_attempt now new_id qz user enr (n + 1) d")
  case (Inl e)
  with assms show ?thesis by (simp add: create_and_start_def)
next
  case (Inr p)
  obtain a d1 where p: "p = (a, d1)" by (cases p)
  from Inr p have fresh: "\<forall>x \<in> set (attempts d). attempt_id x \<noteq> new_id"
    and a: "attempt_id a = new_id" and d1: "attempts d1 = attempts d @ [a]"
    by (auto simp: create_attempt_def Let_def list_ex_iff split: if_splits option.splits)
  show ?thesis
  proof (cases "start_attempt now qz a")
    case (Inl e)
    with Inr p assms show ?thesis by (simp add: create_and_start_def)
  next
    case (Inr a')
    from start_attempt_id [OF Inr] a have a': "attempt_id a' = new_id" by simp
    from assms fresh have "attempt_id (attempts d ! i) \<noteq> new_id" by simp
    with assms a' d1 have "attempts (save_attempt a' d1) ! i = attempts d ! i"
      by (simp add: save_attempt_nth nth_append)
    with Inr \<open>create_attempt now new_id qz user enr (n + 1) d = Inr p\<close> p assms d1
    show ?thesis by (simp add: create_and_start_def)
  qed
qed

lemma start_quiz_attempt_frame:
  assumes dist: "distinct (map attempt_id (attempts d))" and i: "i < length (attempts d)"
    and st: "status (attempts d ! i) \<noteq> InProgress"
  shows "i < length (attempts (snd (start_quiz_attempt now new_id user qid d))) \<and>
         attempts (snd (start_quiz_attempt now new_id user qid d)) ! i = attempts d ! i"
proof -
  have expired: "i < length (attempts (snd (create_and_start now new_id qz user enr n
                     (save_attempt saved d)))) \<and>
         attempts (snd (create_and_start now new_id qz user enr n (save_attempt saved d))) ! i
           = attempts d ! i"
    if "queryset_first (filter (\<lambda>a. status a = InProgress) (attempts_of q user d)) = Some ip"
      and "save_row now (ip\<lparr>status := TimeExpired\<rparr>) = Inr saved"
    for qz enr n ip q saved
  proof -
    from queryset_first_SomeD [OF that(1)]
    have ip: "ip \<in> set (attempts d)" "status ip = InProgress"
      by (auto simp: attempts_of_def)
    from save_row_Inr [OF that(2)] have "attempt_id saved = attempt_id ip"
      by simp
    then have "attempts (save_attempt saved d) ! i = attempts d ! i"
      using save_other_row [OF dist i ip(1)] ip(2) st by simp
    moreover have "i < length (attempts (save_attempt saved d))" using i by simp
    ultimately show ?thesis
      using create_and_start_frame [of i "save_attempt saved d"] by simp
  qed
  show ?thesis
    using i expired create_and_start_frame [OF i]
    by (auto simp: start_quiz_attempt_def Let_def split: option.splits sum.splits)
qed

lemma attempts_create_response [simp]:
  "attempts (snd (create_response new_id aid qid data d)) = attempts d"
  by (simp add: create_response_def Let_def)

lemma attempts_update_response [simp]:
  "attempts (snd (update_response uuid_str uuid_parse q r data d)) = attempts d"
  by (simp add: update_response_def Let_def split: sum.splits)

lemma submit_question_response_frame:
  assumes dist: "distinct (map attempt_id (attempts d))" and i: "i < length (attempts d)"
    and st: "status (attempts d ! i) \<noteq> InProgress"
  shows "i < length (attempts (snd (submit_question_response now uuid_str uuid_parse new_id
                                      user aid qid data d))) \<and>
         attempts (snd (submit_question_response now uuid_str uuid_parse new_id
                          user aid qid data d)) ! i = attempts d ! i"
proof (cases "find (\<lambda>a. attempt_id a = aid \<and> student a = user \<and> status a = InProgress)
                (attempts d)")
  case None
  with i show ?thesis by (simp add: submit_question_response_def)
next
  case (Some a)
  from find_SomeD [OF Some] have a: "a \<in> set (attempts d)" "status a = InProgress"
    by auto
  have "attempts (save_attempt saved d) ! i = attempts d ! i"
    if "save_row now (a\<lparr>status := TimeExpired\<rparr>) = Inr saved" for saved
    using save_other_row [OF dist i a(1), of saved] a(2) st save_row_Inr [OF that] by simp
  with Some i show ?thesis
    by (simp add: submit_question_response_def split: option.splits sum.splits)
qed

lemma complete_quiz_attempt_frame:
  assumes dist: "distinct (map attempt_id (attempts d))" and i: "i < length (attempts d)"
    and st: "status (attempts d ! i) \<noteq> InProgress" "status (attempts d ! i) \<noteq> TimeExpired"
  shows "i < length (attempts (snd (complete_quiz_attempt now user aid d))) \<and>
         attempts (snd (complete_quiz_attempt now user aid d)) ! i = attempts d ! i"
proof (cases "find (\<lambda>a. attempt_id a = aid \<and> student a = user \<and>
                         (status a = InProgress \<or> status a = TimeExpired)) (attempts d)")
  case None
  with i show ?thesis by (simp add: complete_quiz_attempt_def)
next
  case (Some a)
  from find_SomeD [OF Some] have a: "a \<in> set (attempts d)"
    "status a = InProgress \<or> status a = TimeExpired"
    by auto
  have other: "attempts (save_attempt a' d) ! i = attempts d ! i"
    if "attempt_id a' = attempt_id a" for a'
    using save_other_row [OF dist i a(1) _ that] a(2) st by auto
  show ?thesis
    using Some i other complete_attempt_id
    by (auto simp: complete_quiz_attempt_def split: option.splits sum.splits)
qed

lemma recalculate_attempt_frame:
  assumes dist: "distinct (map attempt_id (attempts d))" and i: "i < length (attempts d)"
    and ok: "recalculate_attempt now aid d = Inr d'"
  shows "i < length (attempts d') \<and>
         (\<exists>sp pc pa up. attempts d' ! i
            = (attempts d ! i)\<lparr>score_points := sp, score_percentage := pc, passed := pa,
                                updated_at := up\<rparr>)"
proof -
  from ok obtain a qz a' where a: "find (\<lambda>a. attempt_id a = aid) (attempts d) = Some a"
    and score: "calculate_score qz (attempt_responses (attempt_id a) d) a = Inr a'"
    and d': "d' = save_attempt (auto_now now a') d"
    by (auto simp: recalculate_attempt_def auto_now_def dest!: save_row_Inr
             split: option.splits sum.splits)
  from find_SomeD [OF a] have a_in: "a \<in> set (attempts d)" by simp
  from calculate_score_id [OF score] have a'_id: "attempt_id a' = attempt_id a" .
  have len: "i < length (attempts d')"
    using i d' by simp
  show ?thesis
  proof (cases "attempt_id (attempts d ! i) = attempt_id a")
    case True
    from distinct_ids_same_row [OF dist a_in i True] have row: "attempts d ! i = a" .
    have "attempts d' ! i = auto_now now a'"
      using d' i True a'_id by (simp add: save_attempt_nth auto_now_def)
    also have "\<dots> = a\<lparr>score_points := score_points a', score_percentage := score_percentage a',
                       passed := passed a', updated_at := now\<rparr>"
      using calculate_score_frame [OF score] by (simp add: auto_now_def)
    finally show ?thesis using len row by blast
  next
    case False
    then have "attempts d' ! i = attempts d ! i"
      using d' i a'_id by (simp add: save_attempt_nth auto_now_def)
    then have "attempts d' ! i
        = (attempts d ! i)\<lparr>score_points := score_points (attempts d ! i),
                            score_percentage := score_percentage (attempts d ! i),
                            passed := passed (attempts d ! i),
                            updated_at := updated_at (attempts d ! i)\<rparr>"
      by simp
    then show ?thesis using len by blast
  qed
qed

lemma grade_essay_response_frame:
  assumes dist: "distinct (map attempt_id (attempts d))" and i: "i < length (attempts d)"
  shows "i < length (attempts (snd (grade_essay_response now graded_at user_name user rid pts
                                      feedback d))) \<and>
         (\<exists>sp pc pa up.
            attempts (snd (grade_essay_response now graded_at user_name user rid pts feedback d))
              ! i
            = (attempts d ! i)\<lparr>score_points := sp, score_percentage := pc, passed := pa,
                                updated_at := up\<rparr>)"
proof -
  have same: "\<exists>sp pc pa up. attempts d ! i
        = (attempts d ! i)\<lparr>score_points := sp, score_percentage := pc, passed := pa,
                            updated_at := up\<rparr>"
    by (rule exI [of _ "score_points (attempts d ! i)"],
        rule exI [of _ "score_percentage (attempts d ! i)"],
        rule exI [of _ "passed (attempts d ! i)"],
        rule exI [of _ "updated_at (attempts d ! i)"]) simp
  have recalc: "i < length (attempts d2) \<and>
      (\<exists>sp pc pa up. attempts d2 ! i
         = (attempts d ! i)\<lparr>score_points := sp, score_percentage := pc, passed := pa,
                             updated_at := up\<rparr>)"
    if "recalculate_attempt now aid (save_response r d) = Inr d2" for aid r d2
    using recalculate_attempt_frame [OF _ _ that, of i] dist i by simp
  show ?thesis
    using i same recalc
    by (auto simp: grade_essay_response_def Let_def split: option.splits sum.splits)
qed

text \<open>The primary keys stay distinct, and one request keeps a terminal row.\<close>

lemma create_and_start_ids:
  "map attempt_id (attempts (snd (create_and_start now new_id qz user enr n d)))
     = map attempt_id (attempts d) \<or>
   (new_id \<notin> set (map attempt_id (attempts d)) \<and>
    map attempt_id (attempts (snd (create_and_start now new_id qz user enr n d)))
      = map attempt_id (attempts d) @ [new_id])"
proof (cases "create_attempt now new_id qz user enr (n + 1) d")
  case (Inl e)
  then show ?thesis by (simp add: create_and_start_def)
next
  case (Inr p)
  obtain a d1 where p: "p = (a, d1)" by (cases p)
  from Inr p have fresh: "new_id \<notin> set (map attempt_id (attempts d))"
    and a: "attempt_id a = new_id" and d1: "attempts d1 = attempts d @ [a]"
    by (auto simp: create_attempt_def Let_def list_ex_iff split: if_splits option.splits)
  show ?thesis
    using Inr p fresh a d1
    by (cases "start_attempt now qz a") (simp_all add: create_and_start_def)
qed

lemma create_and_start_distinct:
  assumes "distinct (map attempt_id (attempts d))"
  shows "distinct (map attempt_id (attempts (snd (create_and_start now new_id qz user enr n d))))"
  using create_and_start_ids [of now new_id qz user enr n d] assms
  by (elim disjE) simp_all

lemma step_distinct:
  assumes "distinct (map attempt_id (attempts d))"
  shows "distinct (map attempt_id (attempts (step now uuid_str uuid_parse oper d)))"
proof (cases oper)
  case (StartQuizAttempt new_id user qid)
  have "distinct (map attempt_id (attempts (snd (create_and_start now new_id qz user enr n
                    (save_attempt a d)))))" for qz enr n a
    using create_and_start_distinct [of "save_attempt a d"] assms by simp
  with StartQuizAttempt assms create_and_start_distinct [OF assms] show ?thesis
    by (auto simp: start_quiz_attempt_def Let_def split: option.splits sum.splits)
next
  case (SubmitQuestionResponse new_id user aid qid data)
  have "map attempt_id (attempts (snd (update_response uuid_str uuid_parse q r data d)))
          = map attempt_id (attempts d)" for q r
    by simp
  with SubmitQuestionResponse assms show ?thesis
    by (auto simp: submit_question_response_def split: option.splits sum.splits)
next
  case (CompleteQuizAttempt user aid)
  with assms show ?thesis
    by (auto simp: complete_quiz_attempt_def split: option.splits sum.splits)
next
  case (GradeEssayResponse graded_at user_name user rid pts feedback)
  have "map attempt_id (attempts d2) = map attempt_id (attempts d)"
    if "recalculate_attempt now aid (save_response r d) = Inr d2" for aid r d2
    using that by (auto simp: recalculate_attempt_def split: option.splits sum.splits)
  with GradeEssayResponse assms show ?thesis
    by (auto simp: grade_essay_response_def Let_def split: option.splits sum.splits)
qed

lemma step_terminal_frame:
  assumes "distinct (map attempt_id (attempts d))" and "i < length (attempts d)"
    and "status (attempts d ! i) = Completed \<or> status (attempts d ! i) = Abandoned"
  shows "i < length (attempts (step now uuid_str uuid_parse oper d)) \<and>
         (\<exists>sp pc pa up.
            attempts (step now uuid_str uuid_parse oper d) ! i
              = (attempts d ! i)\<lparr>score_points := sp, score_percentage := pc, passed := pa,
                                  updated_at := up\<rparr>) \<and>
         ((case oper of GradeEssayResponse g n u r p f \<Rightarrow> False | _ \<Rightarrow> True)
            \<longrightarrow> attempts (step now uuid_str uuid_parse oper d) ! i = attempts d ! i)"
proof -
  from assms(3) have st: "status (attempts d ! i) \<noteq> InProgress"
    "status (attempts d ! i) \<noteq> TimeExpired"
    by auto
  have same: "\<exists>sp pc pa up. x = x\<lparr>score_points := sp, score_percentage := pc, passed := pa,
                                    updated_at := up\<rparr>" for x :: attempt
    by (rule exI [of _ "score_points x"], rule exI [of _ "score_percentage x"],
        rule exI [of _ "passed x"], rule exI [of _ "updated_at x"]) simp
  show ?thesis
  proof (cases oper)
    case (StartQuizAttempt new_id user qid)
    with start_quiz_attempt_frame [OF assms(1,2) st(1), of now new_id user qid] same
    show ?thesis by simp
  next
    case (SubmitQuestionResponse new_id user aid qid data)
    with submit_question_response_frame
           [OF assms(1,2) st(1), of now uuid_str uuid_parse new_id user aid qid data] same
    show ?thesis by simp
  next
    case (CompleteQuizAttempt user aid)
    with complete_quiz_attempt_frame [OF assms(1,2) st, of now user aid] same
    show ?thesis by simp
  next
    case (GradeEssayResponse graded_at user_name user rid pts feedback)
    with grade_essay_response_frame
           [OF assms(1,2), of now graded_at user_name user rid pts feedback]
    show ?thesis by simp
  qed
qed

text \<open>
  C7, as the code has it. Once an attempt is \<open>completed\<close> or \<open>abandoned\<close>, no sequence of start,
  submit, complete and grade requests removes its row or changes its status, its attempt
  number, \<open>started_at\<close>, \<open>completed_at\<close>, \<open>expires_at\<close>, \<open>time_spent_seconds\<close> or \<open>quiz_settings\<close>:
  the row differs from the original at most in \<open>score_points\<close>, \<open>score_percentage\<close>, \<open>passed\<close> and
  the \<open>updated_at\<close> stamp, and it is the original row when no request of the sequence grades
  an essay.
\<close>

theorem terminal_attempt_frame:
  assumes "distinct (map attempt_id (attempts d))" and "i < length (attempts d)"
    and "status (attempts d ! i) = Completed \<or> status (attempts d ! i) = Abandoned"
  shows "i < length (attempts (run uuid_str uuid_parse ops d)) \<and>
         (\<exists>sp pc pa up.
            attempts (run uuid_str uuid_parse ops d) ! i
              = (attempts d ! i)\<lparr>score_points := sp, score_percentage := pc, passed := pa,
                                  updated_at := up\<rparr>) \<and>
         (list_all (\<lambda>(now, oper). case oper of GradeEssayResponse g n u r p f \<Rightarrow> False
                                                | _ \<Rightarrow> True) ops
            \<longrightarrow> attempts (run uuid_str uuid_parse ops d) ! i = attempts d ! i)"
  using assms
proof (induction ops arbitrary: d)
  case Nil
  have "\<exists>sp pc pa up. attempts d ! i
      = (attempts d ! i)\<lparr>score_points := sp, score_percentage := pc, passed := pa,
                          updated_at := up\<rparr>"
    by (rule exI [of _ "score_points (attempts d ! i)"],
        rule exI [of _ "score_percentage (attempts d ! i)"],
        rule exI [of _ "passed (attempts d ! i)"],
        rule exI [of _ "updated_at (attempts d ! i)"]) simp
  with Nil show ?case by simp
next
  case (Cons x ops)
  obtain now oper where x: "x = (now, oper)" by (cases x)
  let ?d1 = "step now uuid_str uuid_parse oper d"
  from step_terminal_frame [OF Cons.prems, of now uuid_str uuid_parse oper]
  obtain sp pc pa up where len1: "i < length (attempts ?d1)"
    and row1: "attempts ?d1 ! i
        = (attempts d ! i)\<lparr>score_points := sp, score_percentage := pc, passed := pa,
                            updated_at := up\<rparr>"
    and same1: "(case oper of GradeEssayResponse g n u r p f \<Rightarrow> False | _ \<Rightarrow> True)
        \<longrightarrow> attempts ?d1 ! i = attempts d ! i"
    by blast
  from row1 Cons.prems(3) have term1:
    "status (attempts ?d1 ! i) = Completed \<or> status (attempts ?d1 ! i) = Abandoned"
    by simp
  from Cons.IH [OF step_distinct [OF Cons.prems(1)] len1 term1]
  obtain sp' pc' pa' up' where len2: "i < length (attempts (run uuid_str uuid_parse ops ?d1))"
    and row2: "attempts (run uuid_str uuid_parse ops ?d1) ! i
        = (attempts ?d1 ! i)\<lparr>score_points := sp', score_percentage := pc', passed := pa',
                              updated_at := up'\<rparr>"
    and same2: "list_all (\<lambda>(now, oper). case oper of GradeEssayResponse g n u r p f \<Rightarrow> False
                                                    | _ \<Rightarrow> True) ops
        \<longrightarrow> attempts (run uuid_str uuid_parse ops ?d1) ! i = attempts ?d1 ! i"
    by blast
  from row1 row2 have "attempts (run uuid_str uuid_parse ops ?d1) ! i
        = (attempts d ! i)\<lparr>score_points := sp', score_percentage := pc', passed := pa',
                            updated_at := up'\<rparr>"
    by simp
  with len2 same1 same2 x show ?case
    by auto
qed

theorem terminal_attempt_frame_witness:
  "distinct (map attempt_id (attempts completed_db)) \<and>
   0 < length (attempts completed_db) \<and>
   status (attempts completed_db ! 0) = Completed \<and>
   0 < length (attempts (run (\<lambda>u. []) (\<lambda>s. None)
                 [(100000000, GradeEssayResponse ''2026-01-01T00:00:00'' ''Teacher'' 3 1 10 ''full''),
                  (100000001, CompleteQuizAttempt 7 1)] completed_db)) \<and>
   status (attempts (run (\<lambda>u. []) (\<lambda>s. None)
                 [(100000000, GradeEssayResponse ''2026-01-01T00:00:00'' ''Teacher'' 3 1 10 ''full''),
                  (100000001, CompleteQuizAttempt 7 1)] completed_db) ! 0) = Completed \<and>
   completed_at (attempts (run (\<lambda>u. []) (\<lambda>s. None)
                 [(100000000, GradeEssayResponse ''2026-01-01T00:00:00'' ''Teacher'' 3 1 10 ''full''),
                  (100000001, CompleteQuizAttempt 7 1)] completed_db) ! 0) = Some 90000000 \<and>
   attempts (run (\<lambda>u. []) (\<lambda>s. None) [(100000001, CompleteQuizAttempt 7 1)] completed_db) ! 0
     = attempts completed_db ! 0"
proof -
  have h: "distinct (map attempt_id (attempts completed_db))"
    "0 < length (attempts completed_db)"
    "status (attempts completed_db ! 0) = Completed \<or> status (attempts completed_db ! 0) = Abandoned"
    by (simp_all add: sample_defs)
  have st: "status (attempts completed_db ! 0) = Completed"
    "completed_at (attempts completed_db ! 0) = Some 90000000"
    by (simp_all add: sample_defs)
  from terminal_attempt_frame [OF h, of "\<lambda>u. []" "\<lambda>s. None"
      "[(100000000, GradeEssayResponse ''2026-01-01T00:00:00'' ''Teacher'' 3 1 10 ''full''),
        (100000001, CompleteQuizAttempt 7 1)]"]
  obtain sp pc pa up where
    "0 < length (attempts (run (\<lambda>u. []) (\<lambda>s. None)
                 [(100000000, GradeEssayResponse ''2026-01-01T00:00:00'' ''Teacher'' 3 1 10 ''full''),
                  (100000001, CompleteQuizAttempt 7 1)] completed_db))"
    "attempts (run (\<lambda>u. []) (\<lambda>s. None)
                 [(100000000, GradeEssayResponse ''2026-01-01T00:00:00'' ''Teacher'' 3 1 10 ''full''),
                  (100000001, CompleteQuizAttempt 7 1)] completed_db) ! 0
       = (attempts completed_db ! 0)\<lparr>score_points := sp, score_percentage := pc, passed := pa,
                                       updated_at := up\<rparr>"
    by blast
  moreover from terminal_attempt_frame [OF h, of "\<lambda>u. []" "\<lambda>s. None"
      "[(100000001, CompleteQuizAttempt 7 1)]"]
  have "attempts (run (\<lambda>u. []) (\<lambda>s. None) [(100000001, CompleteQuizAttempt 7 1)] completed_db) ! 0
     = attempts completed_db ! 0"
    by simp
  ultimately show ?thesis
    using h(1,2) st by simp
qed

text \<open>
  C7 as stated fails: grading the essay of the completed attempt with full points recomputes
  the attempt, whose \<open>score_points\<close>, \<open>score_percentage\<close> and \<open>passed\<close> change from 0, 0 and false
  to 10, 100 and true.
\<close>

theorem grading_rescores_completed_attempt:
  "map status (attempts completed_db) = [Completed] \<and>
   map score_points (attempts completed_db) = [0] \<and>
   map passed (attempts completed_db) = [False] \<and>
   map score_points
     (attempts (snd (grade_essay_response 100000000 ''2026-01-01T00:00:00'' ''Teacher'' 3 1 10
                       ''full'' completed_db))) = [10] \<and>
   map score_percentage
     (attempts (snd (grade_essay_response 100000000 ''2026-01-01T00:00:00'' ''Teacher'' 3 1 10
                       ''full'' completed_db))) = [100] \<and>
   map passed
     (attempts (snd (grade_essay_response 100000000 ''2026-01-01T00:00:00'' ''Teacher'' 3 1 10
                       ''full'' completed_db))) = [True]"
  by (simp add: sample_defs grade_essay_response_def essay_of_instructor_def store_feedback_def
        or_empty_dict_def save_response_def recalculate_attempt_def attempt_responses_def
        calculate_score_eq save_row_def column_error_def sqlite_max_def save_attempt_def
        auto_now_def round_double_eval)


text \<open>The handler for completion does not find an attempt that is not open.\<close>

lemma complete_quiz_attempt_not_open:
  assumes "distinct (map attempt_id (attempts d))" and "a \<in> set (attempts d)"
    and "attempt_id a = aid" and "status a \<noteq> InProgress" and "status a \<noteq> TimeExpired"
  shows "complete_quiz_attempt now user aid d = (Http404, d)"
proof -
  have "find (\<lambda>a. attempt_id a = aid \<and> student a = user \<and>
                   (status a = InProgress \<or> status a = TimeExpired)) (attempts d) = None"
  proof (rule ccontr)
    assume "\<not> ?thesis"
    then obtain x where x: "find (\<lambda>a. attempt_id a = aid \<and> student a = user \<and>
                   (status a = InProgress \<or> status a = TimeExpired)) (attempts d) = Some x"
      by auto
    from find_SomeD [OF x] have "x \<in> set (attempts d)" "attempt_id x = aid"
      "status x = InProgress \<or> status x = TimeExpired"
      by auto
    moreover from assms(2) obtain i where "i < length (attempts d)" "attempts d ! i = a"
      by (auto simp: in_set_conv_nth)
    ultimately show False
      using distinct_ids_same_row [OF assms(1), of x i] assms(3,4,5) by auto
  qed
  then show ?thesis
    by (simp add: complete_quiz_attempt_def)
qed

section \<open>The stored settings of an attempt: proofs\<close>

text \<open>No sequence of start, submit, complete and grade requests changes the \<open>quiz_settings\<close> of
  a row of the attempts table, whatever its status.\<close>

lemma save_keeps_settings:
  assumes "distinct (map attempt_id (attempts d))" and "i < length (attempts d)"
    and "x \<in> set (attempts d)" and "attempt_id a = attempt_id x"
    and "quiz_settings a = quiz_settings x"
  shows "quiz_settings (attempts (save_attempt a d) ! i) = quiz_settings (attempts d ! i)"
proof (cases "attempt_id (attempts d ! i) = attempt_id x")
  case True
  from distinct_ids_same_row [OF assms(1,3,2) True] assms(2,4,5) True show ?thesis
    by (simp add: save_attempt_nth)
next
  case False
  with assms(2,4) show ?thesis
    by (simp add: save_attempt_nth)
qed

lemma calculate_score_settings:
  "calculate_score qz rs a = Inr a' \<Longrightarrow> quiz_settings a' = quiz_settings a"
  using calculate_score_shape [of qz rs] by auto

lemma complete_attempt_settings:
  "complete_attempt now qz rs a = Inr a' \<Longrightarrow> quiz_settings a' = quiz_settings a"
  by (auto simp: complete_attempt_def Let_def dest!: save_row_Inr calculate_score_settings
           split: if_splits option.splits sum.splits)

lemma step_keeps_quiz_settings:
  assumes dist: "distinct (map attempt_id (attempts d))" and i: "i < length (attempts d)"
  shows "i < length (attempts (step now uuid_str uuid_parse oper d)) \<and>
         quiz_settings (attempts (step now uuid_str uuid_parse oper d) ! i)
           = quiz_settings (attempts d ! i)"
proof (cases oper)
  case (StartQuizAttempt new_id user qid)
  have expired: "i < length (attempts (snd (create_and_start now new_id qz user enr n
                     (save_attempt saved d)))) \<and>
         quiz_settings (attempts (snd (create_and_start now new_id qz user enr n
                     (save_attempt saved d))) ! i)
           = quiz_settings (attempts d ! i)"
    if "queryset_first (filter (\<lambda>a. status a = InProgress) (attempts_of q user d)) = Some ip"
      and "save_row now (ip\<lparr>status := TimeExpired\<rparr>) = Inr saved"
    for qz enr n ip q saved
  proof -
    from queryset_first_SomeD [OF that(1)] have ip: "ip \<in> set (attempts d)"
      by (auto simp: attempts_of_def)
    have "quiz_settings (attempts (save_attempt saved d) ! i) = quiz_settings (attempts d ! i)"
      using save_keeps_settings [OF dist i ip, of saved] save_row_Inr [OF that(2)] by simp
    moreover have "i < length (attempts (save_attempt saved d))" using i by simp
    ultimately show ?thesis
      using create_and_start_frame [of i "save_attempt saved d"] by simp
  qed
  show ?thesis
    using StartQuizAttempt i expired create_and_start_frame [OF i]
    by (auto simp: start_quiz_attempt_def Let_def split: option.splits sum.splits)
next
  case (SubmitQuestionResponse new_id user aid qid data)
  show ?thesis
  proof (cases "find (\<lambda>a. attempt_id a = aid \<and> student a = user \<and> status a = InProgress)
                  (attempts d)")
    case None
    with SubmitQuestionResponse i show ?thesis by (simp add: submit_question_response_def)
  next
    case (Some a)
    from find_SomeD [OF Some] have a: "a \<in> set (attempts d)" by simp
    have "quiz_settings (attempts (save_attempt saved d) ! i) = quiz_settings (attempts d ! i)"
      if "save_row now (a\<lparr>status := TimeExpired\<rparr>) = Inr saved" for saved
      using save_keeps_settings [OF dist i a, of saved] save_row_Inr [OF that] by simp
    with Some SubmitQuestionResponse i show ?thesis
      by (simp add: submit_question_response_def split: option.splits sum.splits)
  qed
next
  case (CompleteQuizAttempt user aid)
  show ?thesis
  proof (cases "find (\<lambda>a. attempt_id a = aid \<and> student a = user \<and>
                         (status a = InProgress \<or> status a = TimeExpired)) (attempts d)")
    case None
    with CompleteQuizAttempt i show ?thesis by (simp add: complete_quiz_attempt_def)
  next
    case (Some a)
    from find_SomeD [OF Some] have a: "a \<in> set (attempts d)" by simp
    have "quiz_settings (attempts (save_attempt a' d) ! i) = quiz_settings (attempts d ! i)"
      if "complete_attempt now qz rs a = Inr a'" for qz rs a'
      using save_keeps_settings [OF dist i a] complete_attempt_id [OF that]
        complete_attempt_settings [OF that] by simp
    with Some CompleteQuizAttempt i show ?thesis
      by (auto simp: complete_quiz_attempt_def split: option.splits sum.splits)
  qed
next
  case (GradeEssayResponse graded_at user_name user rid pts feedback)
  from grade_essay_response_frame [OF dist i, of now graded_at user_name user rid pts feedback]
  obtain sp pc pa up where
    "i < length (attempts (snd (grade_essay_response now graded_at user_name user rid pts
                                  feedback d)))"
    "attempts (snd (grade_essay_response now graded_at user_name user rid pts feedback d)) ! i
       = (attempts d ! i)\<lparr>score_points := sp, score_percentage := pc, passed := pa,
                           updated_at := up\<rparr>"
    by blast
  with GradeEssayResponse show ?thesis by simp
qed

lemma run_keeps_quiz_settings:
  assumes "distinct (map attempt_id (attempts d))" and "i < length (attempts d)"
  shows "i < length (attempts (run uuid_str uuid_parse ops d)) \<and>
         quiz_settings (attempts (run uuid_str uuid_parse ops d) ! i)
           = quiz_settings (attempts d ! i)"
  using assms
proof (induction ops arbitrary: d)
  case Nil
  then show ?case by simp
next
  case (Cons x ops)
  obtain now oper where x: "x = (now, oper)" by (cases x)
  let ?d1 = "step now uuid_str uuid_parse oper d"
  from step_keeps_quiz_settings [OF Cons.prems, of now uuid_str uuid_parse oper]
  have one: "i < length (attempts ?d1)"
    "quiz_settings (attempts ?d1 ! i) = quiz_settings (attempts d ! i)"
    by simp_all
  from Cons.IH [OF step_distinct [OF Cons.prems(1)] one(1)] one(2) x
  show ?case by simp
qed




end
